theory Spec2Isabelle
  imports Complex_Main
begin

section \<open>Numbers, vectors and the library operations the scenes call\<close>

text \<open>
  The scenes compute with JavaScript numbers. They are modelled as mathematical reals, so
  every result below is about the arithmetic the code writes down, not about the rounding of
  IEEE doubles.

  A \<open>THREE.Vector3\<close> is a record of its three components (\<open>vx\<close>, \<open>vy\<close>, \<open>vz\<close> for the
  source's \<open>.x\<close>, \<open>.y\<close>, \<open>.z\<close>), a \<open>THREE.Quaternion\<close> a record of its four. The source
  clones a vector before changing it wherever the original is still needed; with values
  instead of objects \<open>clone\<close> is the identity and is left out.
\<close>

record Vector3 =
  vx :: real
  vy :: real
  vz :: real

record Quaternion =
  qx :: real
  qy :: real
  qz :: real
  qw :: real

text \<open>
  The methods of \<open>THREE.Vector3\<close> and \<open>THREE.MathUtils\<close> that the scenes use belong to the
  rendering library, which is not part of the repository. They are written here as the
  library computes them.
\<close>

definition addScaledVector :: "Vector3 \<Rightarrow> Vector3 \<Rightarrow> real \<Rightarrow> Vector3" where
  \<comment> \<open>\<open>v.addScaledVector(d, s)\<close>: \<open>v + d * s\<close>, component by component.\<close>
  "addScaledVector v d s =
     \<lparr>vx = vx v + vx d * s, vy = vy v + vy d * s, vz = vz v + vz d * s\<rparr>"

definition multiplyScalar :: "Vector3 \<Rightarrow> real \<Rightarrow> Vector3" where
  "multiplyScalar v s = \<lparr>vx = vx v * s, vy = vy v * s, vz = vz v * s\<rparr>"

definition divideScalar :: "Vector3 \<Rightarrow> real \<Rightarrow> Vector3" where
  \<comment> \<open>\<open>v.divideScalar(s)\<close> is \<open>v.multiplyScalar(1 / s)\<close>.\<close>
  "divideScalar v s = multiplyScalar v (1 / s)"

definition vlength :: "Vector3 \<Rightarrow> real" where
  \<comment> \<open>\<open>v.length()\<close>, the Euclidean norm.\<close>
  "vlength v = sqrt (vx v * vx v + vy v * vy v + vz v * vz v)"

definition normalize_vec :: "Vector3 \<Rightarrow> Vector3" where
  \<comment> \<open>Modelled from the spec: \<open>Vector3.normalize\<close> of the rendering library, which the spec
      words as "re-normalize to unit length". The library divides by \<open>this.length() || 1\<close>:
      a vector of length 0 is divided by 1 and stays the zero vector.\<close>
  "normalize_vec v = divideScalar v (if vlength v = 0 then 1 else vlength v)"

definition applyQuaternion :: "Vector3 \<Rightarrow> Quaternion \<Rightarrow> Vector3" where
  \<comment> \<open>Modelled from the spec: \<open>Vector3.applyQuaternion\<close> of the rendering library, which the
      spec words as "rotate it by the viewer's current orientation":
      \<open>t = 2 * cross(q.xyz, v)\<close>, result \<open>v + q.w * t + cross(q.xyz, t)\<close>.\<close>
  "applyQuaternion v q =
     (let tx = 2 * (qy q * vz v - qz q * vy v);
          ty = 2 * (qz q * vx v - qx q * vz v);
          tz = 2 * (qx q * vy v - qy q * vx v)
      in \<lparr>vx = vx v + qw q * tx + qy q * tz - qz q * ty,
          vy = vy v + qw q * ty + qz q * tx - qx q * tz,
          vz = vz v + qw q * tz + qx q * ty - qy q * tx\<rparr>)"

definition distanceTo :: "Vector3 \<Rightarrow> Vector3 \<Rightarrow> real" where
  \<comment> \<open>\<open>v.distanceTo(w)\<close>, the Euclidean distance.\<close>
  "distanceTo v w =
     (let dx = vx v - vx w; dy = vy v - vy w; dz = vz v - vz w
      in sqrt (dx * dx + dy * dy + dz * dz))"

definition lerp :: "real \<Rightarrow> real \<Rightarrow> real \<Rightarrow> real" where
  \<comment> \<open>Modelled from the spec: \<open>THREE.MathUtils.lerp\<close> of the rendering library, for which the
      spec gives \<open>lerp(a,b,t) = a + (b-a)*t\<close>.\<close>
  "lerp a b t = a + (b - a) * t"

text \<open>
  A \<open>THREE.Raycaster\<close> is built from an origin, a direction and the near and far bounds.
  \<open>ray.intersectObjects(objects, true)\<close> is the ray query of the rendering library: it
  returns the intersections nearest first, each with its distance and its point. The
  geometry of the query is the library's; the scenes only read whether the list is empty and
  the point of its first element. The query is therefore a parameter of every function
  below, and the theorems hold for every query.
\<close>

record Raycaster =
  origin :: Vector3
  direction :: Vector3
  near :: real
  far :: real

record Intersection =
  distance :: real
  point :: Vector3

type_synonym 'm intersectObjects = "Raycaster \<Rightarrow> 'm list \<Rightarrow> bool \<Rightarrow> Intersection list"

section \<open>The input sampler shared by the scenes\<close>

text \<open>
  An entry of \<open>session.inputSources\<close>: its handedness and the axes of its gamepad
  (\<open>None\<close> when the source has no gamepad). A frame reads \<open>renderer.xr.isPresenting\<close>,
  the input sources of the session (\<open>None\<close> when \<open>session && session.inputSources\<close> is
  falsy) and the orientation of the camera.
\<close>

record XRInputSource =
  handedness :: string
  gamepad :: "real list option"

record XRFrame =
  isPresenting :: bool
  inputSources :: "XRInputSource list option"
  camera_quaternion :: Quaternion

definition deadzone :: real where
  "deadzone = 0.15"

definition moveSpeed :: real where
  "moveSpeed = 0.05"

definition thumbstick :: "XRInputSource \<Rightarrow> (real \<times> real) option" where
  \<comment> \<open>The guards of \<open>animate\<close> around the movement code: a left-hand source with a gamepad of
      at least four axes whose axes 2 and 3 are not both inside the deadzone.\<close>
  "thumbstick inputSource =
     (if handedness inputSource = ''left'' then
        (case gamepad inputSource of
           None \<Rightarrow> None
         | Some axes \<Rightarrow>
             if length axes \<ge> 4 then
               (let thumbstickX = axes ! 2; thumbstickY = axes ! 3
                in if \<bar>thumbstickX\<bar> > deadzone \<or> \<bar>thumbstickY\<bar> > deadzone
                   then Some (thumbstickX, thumbstickY) else None)
             else None)
      else None)"

definition stickDirection :: "Quaternion \<Rightarrow> real \<times> real \<Rightarrow> Vector3" where
  \<comment> \<open>\<open>moveDir\<close>: the stick as the local vector \<open>(x, 0, y)\<close>, rotated by the camera, its
      vertical component set to 0, then normalized.\<close>
  "stickDirection q stick =
     normalize_vec ((applyQuaternion \<lparr>vx = fst stick, vy = 0, vz = snd stick\<rparr> q)\<lparr>vy := 0\<rparr>)"

definition sample :: "Quaternion \<Rightarrow> XRInputSource \<Rightarrow> Vector3 option" where
  \<comment> \<open>The spec's input sampler: the move vector of a source, or \<open>None\<close> for the spec's null.
      In the source this is the code of \<open>animate\<close> up to \<open>moveDir.normalize()\<close>.\<close>
  "sample q inputSource = map_option (stickDirection q) (thumbstick inputSource)"

section \<open>terrain.js: ground snap and proactive move\<close>

text \<open>
  Every scene owns a camera rig, whose position the movement code changes. The mutable
  globals of \<open>terrain.js\<close> are the rig, \<open>currentY\<close> and the registered terrain meshes.
\<close>

record rig =
  cameraRig_position :: Vector3

record 'm terrain = rig +
  currentY :: real
  terrainMeshes :: "'m list"

definition interpolationFactor :: real where
  "interpolationFactor = 0.2"

definition downRay :: "Vector3 \<Rightarrow> Raycaster" where
  \<comment> \<open>The raycaster both terrain functions build: from 5 above the position, straight down,
      near 0, far 20.\<close>
  "downRay p =
     \<lparr>origin = \<lparr>vx = vx p, vy = vy p + 5, vz = vz p\<rparr>,
      direction = \<lparr>vx = 0, vy = -1, vz = 0\<rparr>,
      near = 0, far = 20\<rparr>"

definition terrainFollowing ::
  "'m intersectObjects \<Rightarrow> 'm terrain \<Rightarrow> Vector3 \<Rightarrow> 'm terrain \<times> bool" where
  "terrainFollowing isect s checkPosition =
     (let hits = isect (downRay checkPosition) (terrainMeshes s) True
      in case hits of
           [] \<Rightarrow> (s, False)
         | hit # _ \<Rightarrow>
             (let terrainY = vy (point hit);
                  c = lerp (currentY s) (terrainY + 1.6) interpolationFactor
              in (s\<lparr>currentY := c, cameraRig_position := (cameraRig_position s)\<lparr>vy := c\<rparr>\<rparr>,
                  True)))"

definition checkTerrainAtNextPosition ::
  "'m intersectObjects \<Rightarrow> 'm terrain \<Rightarrow> Vector3 \<Rightarrow> 'm terrain \<times> real option" where
  "checkTerrainAtNextPosition isect s nextPos =
     (let groundHits = isect (downRay nextPos) (terrainMeshes s) True
      in case groundHits of
           [] \<Rightarrow> (s, None)
         | hit # _ \<Rightarrow>
             (let terrainY = vy (point hit)
              in (s\<lparr>currentY := lerp (currentY s) (terrainY + 1.6) interpolationFactor\<rparr>,
                  Some (terrainY + 1.6))))"

definition terrain_move :: "'m intersectObjects \<Rightarrow> Vector3 \<Rightarrow> 'm terrain \<Rightarrow> 'm terrain" where
  \<comment> \<open>The body of \<open>animate\<close> once \<open>moveDir\<close> is known: the candidate position, the probe
      beneath it, and the commit or the fallback.\<close>
  "terrain_move isect moveDir s =
     (let currentPos = cameraRig_position s;
          nextPos = addScaledVector currentPos moveDir moveSpeed;
          (s1, terrainHeight) = checkTerrainAtNextPosition isect s nextPos
      in case terrainHeight of
           Some _ \<Rightarrow>
             s1\<lparr>cameraRig_position := \<lparr>vx = vx nextPos, vy = currentY s1, vz = vz nextPos\<rparr>\<rparr>
         | None \<Rightarrow>
             s1\<lparr>cameraRig_position := addScaledVector (cameraRig_position s1) moveDir moveSpeed\<rparr>)"

definition terrain_input ::
  "'m intersectObjects \<Rightarrow> Quaternion \<Rightarrow> XRInputSource \<Rightarrow> 'm terrain \<Rightarrow> 'm terrain" where
  \<comment> \<open>The callback of \<open>session.inputSources.forEach\<close>.\<close>
  "terrain_input isect q inputSource s =
     (case sample q inputSource of
        None \<Rightarrow> s
      | Some moveDir \<Rightarrow> terrain_move isect moveDir s)"

definition terrain_movement :: "'m intersectObjects \<Rightarrow> XRFrame \<Rightarrow> 'm terrain \<Rightarrow> 'm terrain" where
  \<comment> \<open>The movement part of \<open>animate\<close>: every input source in turn, while presenting.\<close>
  "terrain_movement isect frame s =
     (if isPresenting frame then
        (case inputSources frame of
           None \<Rightarrow> s
         | Some sources \<Rightarrow> fold (terrain_input isect (camera_quaternion frame)) sources s)
      else s)"

definition terrain_animate :: "'m intersectObjects \<Rightarrow> XRFrame \<Rightarrow> 'm terrain \<Rightarrow> 'm terrain" where
  \<comment> \<open>\<open>animate\<close> of \<open>terrain.js\<close>: the movement, then the ground snap at the rig's position.\<close>
  "terrain_animate isect frame s =
     (let s1 = terrain_movement isect frame s
      in fst (terrainFollowing isect s1 (cameraRig_position s1)))"

definition terrain_init :: "'m list \<Rightarrow> 'm terrain" where
  \<comment> \<open>The globals after \<open>init\<close>: the rig at \<open>(0, 1.6, 3)\<close>, \<open>currentY = 1.6\<close>, and the meshes
      that \<open>init\<close> pushed.\<close>
  "terrain_init meshes =
     \<lparr>cameraRig_position = \<lparr>vx = 0, vy = 1.6, vz = 3\<rparr>, currentY = 1.6, terrainMeshes = meshes\<rparr>"

definition terrain_run :: "'m intersectObjects \<Rightarrow> XRFrame list \<Rightarrow> 'm terrain \<Rightarrow> 'm terrain" where
  \<comment> \<open>The animation loop: \<open>animate\<close> once per rendered frame.\<close>
  "terrain_run isect frames s = fold (terrain_animate isect) frames s"

text \<open>
  The values \<open>currentY\<close> can take from a start value: those reached by any number of
  smoothing updates, each toward 1.6 above the first hit of a downward probe against the
  meshes.
\<close>

inductive smoothed :: "'m intersectObjects \<Rightarrow> 'm list \<Rightarrow> real \<Rightarrow> real \<Rightarrow> bool"
  for isect :: "'m intersectObjects" and meshes :: "'m list" and c :: real where
  smoothed_start: "smoothed isect meshes c c"
| smoothed_update:
    "smoothed isect meshes c c' \<Longrightarrow> isect (downRay p) meshes True = hit # rest \<Longrightarrow>
     smoothed isect meshes c (lerp c' (vy (point hit) + 1.6) 0.2)"

primrec smoothing :: "real \<Rightarrow> real \<Rightarrow> nat \<Rightarrow> real \<Rightarrow> real" where
  \<comment> \<open>\<open>n\<close> smoothing updates with factor \<open>t\<close> over ground of constant height \<open>h\<close>.\<close>
  "smoothing t h 0 c = c"
| "smoothing t h (Suc n) c = lerp (smoothing t h n c) (h + 1.6) t"

section \<open>collision.js: movement blocked by obstacles\<close>

text \<open>
  The globals of \<open>collision.js\<close>: the rig, the obstacles, and what was written to the
  console.
\<close>

record 'm collision = rig +
  collidables :: "'m list"
  console :: "string list"

definition collisionDistance :: real where
  "collisionDistance = 1.0"

definition forwardRay :: "Vector3 \<Rightarrow> Vector3 \<Rightarrow> Raycaster" where
  \<comment> \<open>The raycaster of \<open>checkCollision\<close>: from 0.5 above the next position, along the move
      direction, near 0, far \<open>collisionDistance\<close>.\<close>
  "forwardRay nextPos moveDirection =
     \<lparr>origin = \<lparr>vx = vx nextPos, vy = vy nextPos + 0.5, vz = vz nextPos\<rparr>,
      direction = moveDirection,
      near = 0, far = collisionDistance\<rparr>"

definition checkCollision ::
  "'m intersectObjects \<Rightarrow> 'm collision \<Rightarrow> Vector3 \<Rightarrow> Vector3 \<Rightarrow> bool" where
  "checkCollision isect s currentPos moveDirection =
     (let nextPos = addScaledVector currentPos moveDirection moveSpeed;
          hits = isect (forwardRay nextPos moveDirection) (collidables s) True
      in length hits > 0)"

definition collision_input ::
  "'m intersectObjects \<Rightarrow> Quaternion \<Rightarrow> XRInputSource \<Rightarrow> 'm collision \<Rightarrow> 'm collision" where
  \<comment> \<open>The callback of \<open>session.inputSources.forEach\<close>.\<close>
  "collision_input isect q inputSource s =
     (case sample q inputSource of
        None \<Rightarrow> s
      | Some moveDir \<Rightarrow>
          if \<not> checkCollision isect s (cameraRig_position s) moveDir
          then s\<lparr>cameraRig_position := addScaledVector (cameraRig_position s) moveDir moveSpeed\<rparr>
          else s\<lparr>console := console s @ [''Movement blocked by collision!'']\<rparr>)"

definition collision_animate ::
  "'m intersectObjects \<Rightarrow> XRFrame \<Rightarrow> 'm collision \<Rightarrow> 'm collision" where
  \<comment> \<open>\<open>animate\<close> of \<open>collision.js\<close>: the movement only.\<close>
  "collision_animate isect frame s =
     (if isPresenting frame then
        (case inputSources frame of
           None \<Rightarrow> s
         | Some sources \<Rightarrow> fold (collision_input isect (camera_quaternion frame)) sources s)
      else s)"

section \<open>proximity.js: the near/far flag of the cube\<close>

text \<open>
  The globals of \<open>proximity.js\<close>: the rig, the flag \<open>isNearCube\<close>, the cube (position, colour
  of its material, scale) and the console. A log entry keeps the distance it prints. The rig
  and the cube are children of the scene, which is never moved, so their world positions are
  their positions.
\<close>

datatype proximity_log = Near_cube real | Away_from_cube real

record proximity = rig +
  isNearCube :: bool
  proximityCube_position :: Vector3
  proximityCube_color :: nat
  proximityCube_scale :: Vector3
  proximity_console :: "proximity_log list"

definition proximityDistance :: real where
  "proximityDistance = 4.0"

definition setScalar :: "real \<Rightarrow> Vector3" where
  \<comment> \<open>\<open>v.setScalar(s)\<close>: all three components become \<open>s\<close>.\<close>
  "setScalar s = \<lparr>vx = s, vy = s, vz = s\<rparr>"

definition checkProximity :: "real \<Rightarrow> proximity \<Rightarrow> proximity" where
  \<comment> \<open>\<open>now\<close> is the value of \<open>Date.now()\<close>. \<open>0xff0000 = 16711680\<close>, \<open>0x00ff00 = 65280\<close>.\<close>
  "checkProximity now s =
     (let playerPosition = cameraRig_position s;
          cubePosition = proximityCube_position s;
          distance = distanceTo playerPosition cubePosition;
          s1 = (if distance < proximityDistance \<and> \<not> isNearCube s then
                  s\<lparr>proximityCube_color := 16711680, isNearCube := True,
                    proximity_console := proximity_console s @ [Near_cube distance]\<rparr>
                else if distance \<ge> proximityDistance \<and> isNearCube s then
                  s\<lparr>proximityCube_color := 65280, isNearCube := False,
                    proximity_console := proximity_console s @ [Away_from_cube distance]\<rparr>
                else s)
      in if isNearCube s1 then
           (let scale = 1 + sin (now * 0.005) * 0.2
            in s1\<lparr>proximityCube_scale := setScalar scale\<rparr>)
         else s1\<lparr>proximityCube_scale := setScalar 1\<rparr>)"

definition proximity_input :: "Quaternion \<Rightarrow> XRInputSource \<Rightarrow> proximity \<Rightarrow> proximity" where
  \<comment> \<open>The callback of \<open>session.inputSources.forEach\<close>.\<close>
  "proximity_input q inputSource s =
     (case sample q inputSource of
        None \<Rightarrow> s
      | Some moveDir \<Rightarrow>
          s\<lparr>cameraRig_position := addScaledVector (cameraRig_position s) moveDir moveSpeed\<rparr>)"

definition proximity_animate :: "real \<Rightarrow> XRFrame \<Rightarrow> proximity \<Rightarrow> proximity" where
  \<comment> \<open>\<open>animate\<close> of \<open>proximity.js\<close>: the movement, then \<open>checkProximity\<close>.\<close>
  "proximity_animate now frame s =
     (let s1 = (if isPresenting frame then
                  (case inputSources frame of
                     None \<Rightarrow> s
                   | Some sources \<Rightarrow> fold (proximity_input (camera_quaternion frame)) sources s)
                else s)
      in checkProximity now s1)"

section \<open>A ray query for box-shaped meshes\<close>

text \<open>
  The theorems below hold for every ray query. To run the scenes on concrete input a query
  is needed; this one answers for meshes that are axis-aligned boxes, as the floor, the steps
  and the obstacles of the scenes are (a plane is a box of no height).
\<close>

record Box =
  box_min :: Vector3
  box_max :: Vector3

definition slab :: "real \<Rightarrow> real \<Rightarrow> real \<Rightarrow> real \<Rightarrow> (real \<times> real) list option" where
  \<comment> \<open>The ray parameters at which \<open>p + t * d\<close> lies between \<open>lo\<close> and \<open>hi\<close> on one axis: an
      interval when \<open>d\<close> is not 0; otherwise every \<open>t\<close> (no constraint) or none.\<close>
  "slab p d lo hi =
     (if d = 0 then (if lo \<le> p \<and> p \<le> hi then Some [] else None)
      else Some [(min ((lo - p) / d) ((hi - p) / d), max ((lo - p) / d) ((hi - p) / d))])"

definition box_entry :: "Raycaster \<Rightarrow> Box \<Rightarrow> real option" where
  \<comment> \<open>The parameter at which the ray enters the box from outside, when that lies between
      near and far. Faces are seen from outside only, so a ray that starts inside hits
      nothing, and leaving the box is no hit.\<close>
  "box_entry r b =
     (let p = origin r; d = direction r; lo = box_min b; hi = box_max b
      in case (slab (vx p) (vx d) (vx lo) (vx hi),
               slab (vy p) (vy d) (vy lo) (vy hi),
               slab (vz p) (vz d) (vz lo) (vz hi)) of
           (Some sx, Some sy, Some sz) \<Rightarrow>
             (case sx @ sy @ sz of
                [] \<Rightarrow> None
              | i # rest \<Rightarrow>
                  (let t0 = foldr max (map fst rest) (fst i);
                       t1 = foldr min (map snd rest) (snd i)
                   in if t0 \<le> t1 \<and> near r \<le> t0 \<and> t0 \<le> far r then Some t0 else None))
         | _ \<Rightarrow> None)"

definition box_query :: "Box intersectObjects" where
  \<comment> \<open>Modelled from the spec: the ray-intersection query of the rendering library, which
      "returns intersections ordered nearest-first, each with at least a world-space hit
      point", here for box-shaped meshes and a direction of unit length.\<close>
  "box_query r meshes recursive =
     sort_key distance
       (List.map_filter
          (\<lambda>b. map_option
                 (\<lambda>t. \<lparr>distance = t, point = addScaledVector (origin r) (direction r) t\<rparr>)
                 (box_entry r b))
          meshes)"

definition terrain_floor :: Box where
  \<comment> \<open>The floor of \<open>terrain.js\<close>: a 30 by 30 plane at height 0.\<close>
  "terrain_floor = \<lparr>box_min = \<lparr>vx = -15, vy = 0, vz = -15\<rparr>, box_max = \<lparr>vx = 15, vy = 0, vz = 15\<rparr>\<rparr>"

definition terrain_step :: "nat \<Rightarrow> Box" where
  \<comment> \<open>Step \<open>i\<close> of the stairs of \<open>terrain.js\<close>: a 4 by 0.2 by 1.5 box centred at
      \<open>(0, i * 0.2 + 0.1, -5 - i * 1.5)\<close>.\<close>
  "terrain_step i =
     \<lparr>box_min = \<lparr>vx = -2, vy = real i * 0.2, vz = -5 - real i * 1.5 - 0.75\<rparr>,
      box_max = \<lparr>vx = 2, vy = real i * 0.2 + 0.2, vz = -5 - real i * 1.5 + 0.75\<rparr>\<rparr>"

definition obstacle :: "real \<Rightarrow> real \<Rightarrow> real \<Rightarrow> Box" where
  \<comment> \<open>An obstacle of \<open>collision.js\<close>: a 1 by 2 by 1 box centred at the given position.\<close>
  "obstacle px py pz =
     \<lparr>box_min = \<lparr>vx = px - 0.5, vy = py - 1, vz = pz - 0.5\<rparr>,
      box_max = \<lparr>vx = px + 0.5, vy = py + 1, vz = pz + 0.5\<rparr>\<rparr>"

definition createObstacles :: "Box list" where
  \<comment> \<open>The three obstacles \<open>createObstacles\<close> pushes to \<open>collidables\<close>.\<close>
  "createObstacles = [obstacle 2 1 (-1), obstacle (-2) 1 1, obstacle 0 1 (-5)]"

definition left_stick :: "real \<Rightarrow> real \<Rightarrow> XRInputSource" where
  \<comment> \<open>A left-hand controller whose thumbstick axes (axes 2 and 3) are \<open>x\<close> and \<open>y\<close>.\<close>
  "left_stick x y = \<lparr>handedness = ''left'', gamepad = Some [0, 0, x, y]\<rparr>"

definition level_view :: Quaternion where
  \<comment> \<open>The camera looking straight ahead: the identity rotation.\<close>
  "level_view = \<lparr>qx = 0, qy = 0, qz = 0, qw = 1\<rparr>"

definition presenting :: "Quaternion \<Rightarrow> XRInputSource list \<Rightarrow> XRFrame" where
  \<comment> \<open>A frame of a running session.\<close>
  "presenting q sources = \<lparr>isPresenting = True, inputSources = Some sources, camera_quaternion = q\<rparr>"

section \<open>Facts about the library operations\<close>

lemmas vec_defs = addScaledVector_def multiplyScalar_def divideScalar_def vlength_def normalize_vec_def
  applyQuaternion_def lerp_def

lemmas box_defs = box_query_def box_entry_def slab_def terrain_floor_def terrain_step_def
  obstacle_def createObstacles_def

lemmas input_defs = sample_def thumbstick_def left_stick_def level_view_def stickDirection_def
  deadzone_def presenting_def

lemma vlength_zero_iff: "vlength v = 0 \<longleftrightarrow> vx v = 0 \<and> vy v = 0 \<and> vz v = 0"
proof -
  have "vx v * vx v + vy v * vy v + vz v * vz v = 0 \<longleftrightarrow> vx v = 0 \<and> vy v = 0 \<and> vz v = 0"
  proof
    assume h: "vx v * vx v + vy v * vy v + vz v * vz v = 0"
    have "0 \<le> vx v * vx v" "0 \<le> vy v * vy v" "0 \<le> vz v * vz v" by simp_all
    with h have "vx v * vx v = 0" "vy v * vy v = 0" "vz v * vz v = 0" by linarith+
    then show "vx v = 0 \<and> vy v = 0 \<and> vz v = 0" by simp
  qed simp
  then show ?thesis by (simp add: vlength_def)
qed

lemma vlength_multiplyScalar: "vlength (multiplyScalar v k) = \<bar>k\<bar> * vlength v"
proof -
  have "vx v * k * (vx v * k) + vy v * k * (vy v * k) + vz v * k * (vz v * k)
        = k\<^sup>2 * (vx v * vx v + vy v * vy v + vz v * vz v)"
    by (simp add: power2_eq_square algebra_simps)
  then show ?thesis
    by (simp add: vlength_def multiplyScalar_def real_sqrt_mult)
qed

lemma vlength_normalize: "vlength v \<noteq> 0 \<Longrightarrow> vlength (normalize_vec v) = 1"
proof -
  assume nz: "vlength v \<noteq> 0"
  have "0 \<le> vlength v" by (simp add: vlength_def)
  with nz have "0 < vlength v" by simp
  then show ?thesis
    by (simp add: normalize_vec_def divideScalar_def vlength_multiplyScalar)
qed

lemma normalize_zero: "vlength v = 0 \<Longrightarrow> normalize_vec v = \<lparr>vx = 0, vy = 0, vz = 0\<rparr>"
  by (simp add: normalize_vec_def divideScalar_def multiplyScalar_def vlength_zero_iff)

lemma normalize_vy: "vy v = 0 \<Longrightarrow> vy (normalize_vec v) = 0"
  by (simp add: normalize_vec_def divideScalar_def multiplyScalar_def)

lemma stickDirection_vy: "vy (stickDirection q stick) = 0"
  by (simp add: stickDirection_def normalize_vy)

lemma sample_Some_iff:
  "sample q src = Some v \<longleftrightarrow> (\<exists>stick. thumbstick src = Some stick \<and> v = stickDirection q stick)"
  by (auto simp: sample_def)

lemma sample_vy: "sample q src = Some v \<Longrightarrow> vy v = 0"
  by (auto simp: sample_Some_iff stickDirection_vy)

lemma thumbstick_deadzone:
  "gamepad src = Some axes \<Longrightarrow> max \<bar>axes ! 2\<bar> \<bar>axes ! 3\<bar> \<le> 0.15 \<Longrightarrow> thumbstick src = None"
  by (auto simp: thumbstick_def deadzone_def Let_def)

lemma stickDirection_length:
  "(let r = applyQuaternion \<lparr>vx = x, vy = 0, vz = y\<rparr> q
    in if vx r = 0 \<and> vz r = 0 then stickDirection q (x, y) = \<lparr>vx = 0, vy = 0, vz = 0\<rparr>
       else vlength (stickDirection q (x, y)) = 1)"
proof -
  let ?r = "applyQuaternion \<lparr>vx = x, vy = 0, vz = y\<rparr> q"
  have z: "vlength (?r\<lparr>vy := 0\<rparr>) = 0 \<longleftrightarrow> vx ?r = 0 \<and> vz ?r = 0"
    by (simp add: vlength_zero_iff)
  show ?thesis
  proof (cases "vx ?r = 0 \<and> vz ?r = 0")
    case True
    with z have "vlength (?r\<lparr>vy := 0\<rparr>) = 0" by simp
    then have "normalize_vec (?r\<lparr>vy := 0\<rparr>) = \<lparr>vx = 0, vy = 0, vz = 0\<rparr>" by (rule normalize_zero)
    with True show ?thesis by (simp add: stickDirection_def Let_def)
  next
    case False
    with z have "vlength (?r\<lparr>vy := 0\<rparr>) \<noteq> 0" by simp
    then have "vlength (normalize_vec (?r\<lparr>vy := 0\<rparr>)) = 1" by (rule vlength_normalize)
    with False show ?thesis by (auto simp: stickDirection_def Let_def)
  qed
qed

lemma lerp_error: "lerp a b t - b = (1 - t) * (a - b)"
  by (simp add: lerp_def algebra_simps)

section \<open>The steps of terrain.js\<close>

lemma terrainFollowing_miss:
  "isect (downRay p) (terrainMeshes s) True = [] \<Longrightarrow> terrainFollowing isect s p = (s, False)"
  by (simp add: terrainFollowing_def)

lemma terrainFollowing_hit:
  "isect (downRay p) (terrainMeshes s) True = hit # rest \<Longrightarrow>
   terrainFollowing isect s p =
     (s\<lparr>currentY := lerp (currentY s) (vy (point hit) + 1.6) 0.2,
        cameraRig_position :=
          (cameraRig_position s)\<lparr>vy := lerp (currentY s) (vy (point hit) + 1.6) 0.2\<rparr>\<rparr>, True)"
  by (simp add: terrainFollowing_def interpolationFactor_def Let_def)

lemma checkTerrain_miss:
  "isect (downRay p) (terrainMeshes s) True = [] \<Longrightarrow>
   checkTerrainAtNextPosition isect s p = (s, None)"
  by (simp add: checkTerrainAtNextPosition_def)

lemma checkTerrain_hit:
  "isect (downRay p) (terrainMeshes s) True = hit # rest \<Longrightarrow>
   checkTerrainAtNextPosition isect s p =
     (s\<lparr>currentY := lerp (currentY s) (vy (point hit) + 1.6) 0.2\<rparr>, Some (vy (point hit) + 1.6))"
  by (simp add: checkTerrainAtNextPosition_def interpolationFactor_def Let_def)

lemma terrain_move_miss:
  "isect (downRay (addScaledVector (cameraRig_position s) moveDir 0.05)) (terrainMeshes s) True = [] \<Longrightarrow>
   terrain_move isect moveDir s =
     s\<lparr>cameraRig_position := addScaledVector (cameraRig_position s) moveDir 0.05\<rparr>"
  by (simp add: terrain_move_def moveSpeed_def checkTerrain_miss Let_def)

lemma terrain_move_hit:
  "isect (downRay (addScaledVector (cameraRig_position s) moveDir 0.05)) (terrainMeshes s) True = hit # rest \<Longrightarrow>
   terrain_move isect moveDir s =
     s\<lparr>currentY := lerp (currentY s) (vy (point hit) + 1.6) 0.2,
       cameraRig_position :=
         \<lparr>vx = vx (cameraRig_position s) + vx moveDir * 0.05,
          vy = lerp (currentY s) (vy (point hit) + 1.6) 0.2,
          vz = vz (cameraRig_position s) + vz moveDir * 0.05\<rparr>\<rparr>"
  by (simp add: terrain_move_def moveSpeed_def checkTerrain_hit addScaledVector_def Let_def)

lemma terrain_input_commit:
  assumes "sample q inputSource = Some moveVector"
    and "nextPos = \<lparr>vx = vx (cameraRig_position s) + vx moveVector * 0.05,
                    vy = vy (cameraRig_position s) + vy moveVector * 0.05,
                    vz = vz (cameraRig_position s) + vz moveVector * 0.05\<rparr>"
    and "isect (downRay nextPos) (terrainMeshes s) True = hit # rest"
  shows "terrain_input isect q inputSource s =
           s\<lparr>currentY := lerp (currentY s) (vy (point hit) + 1.6) 0.2,
             cameraRig_position :=
               \<lparr>vx = vx nextPos, vy = lerp (currentY s) (vy (point hit) + 1.6) 0.2, vz = vz nextPos\<rparr>\<rparr>"
proof -
  have "nextPos = addScaledVector (cameraRig_position s) moveVector 0.05"
    using assms(2) by (simp add: addScaledVector_def)
  with assms(3) have "isect (downRay (addScaledVector (cameraRig_position s) moveVector 0.05))
      (terrainMeshes s) True = hit # rest" by simp
  then have "terrain_move isect moveVector s =
     s\<lparr>currentY := lerp (currentY s) (vy (point hit) + 1.6) 0.2,
       cameraRig_position :=
         \<lparr>vx = vx (cameraRig_position s) + vx moveVector * 0.05,
          vy = lerp (currentY s) (vy (point hit) + 1.6) 0.2,
          vz = vz (cameraRig_position s) + vz moveVector * 0.05\<rparr>\<rparr>"
    by (rule terrain_move_hit)
  with assms(1,2) show ?thesis
    by (simp add: terrain_input_def)
qed

lemma terrain_input_idle: "sample q src = None \<Longrightarrow> terrain_input isect q src s = s"
  by (simp add: terrain_input_def)

lemma fold_terrain_input_idle:
  "\<forall>src \<in> set sources. sample q src = None \<Longrightarrow> fold (terrain_input isect q) sources s = s"
  by (induction sources) (simp_all add: terrain_input_idle)

text \<open>
  C1. The ground snap runs in every frame, after the movement. It casts a probe from
  \<open>(x, y + 5, z)\<close> of the rig's position straight down, near 0, far 20, against the terrain
  meshes. When the probe hits, \<open>currentY\<close> becomes \<open>lerp(currentY, h + 1.6, 0.2)\<close> for the
  height \<open>h\<close> of the first hit, and the rig's \<open>y\<close> becomes the new \<open>currentY\<close>; when it does not
  hit, the frame leaves the state as the movement left it.
\<close>

theorem ground_snap_every_frame:
  "(let s1 = terrain_movement isect frame s;
        s2 = terrain_animate isect frame s;
        p = cameraRig_position s1;
        probe = isect \<lparr>origin = \<lparr>vx = vx p, vy = vy p + 5, vz = vz p\<rparr>,
                       direction = \<lparr>vx = 0, vy = -1, vz = 0\<rparr>, near = 0, far = 20\<rparr>
                  (terrainMeshes s1) True
    in (probe = [] \<longrightarrow> s2 = s1) \<and>
       (\<forall>hit rest. probe = hit # rest \<longrightarrow>
          s2 = s1\<lparr>currentY := lerp (currentY s1) (vy (point hit) + 1.6) 0.2,
                 cameraRig_position := p\<lparr>vy := lerp (currentY s1) (vy (point hit) + 1.6) 0.2\<rparr>\<rparr>))"
  unfolding Let_def terrain_animate_def
  using terrainFollowing_miss [of isect "cameraRig_position (terrain_movement isect frame s)" "terrain_movement isect frame s"]
    terrainFollowing_hit [of isect "cameraRig_position (terrain_movement isect frame s)" "terrain_movement isect frame s"]
  by (simp add: downRay_def)

theorem ground_snap_every_frame_witness:
  "terrain_animate box_query \<lparr>isPresenting = False, inputSources = None, camera_quaternion = level_view\<rparr>
     \<lparr>cameraRig_position = \<lparr>vx = 0, vy = 1.6, vz = -5.5\<rparr>, currentY = 1.6,
      terrainMeshes = [terrain_floor, terrain_step 0]\<rparr>
   = \<lparr>cameraRig_position = \<lparr>vx = 0, vy = 1.64, vz = -5.5\<rparr>, currentY = 1.64,
      terrainMeshes = [terrain_floor, terrain_step 0]\<rparr>
   \<and> terrain_animate box_query \<lparr>isPresenting = False, inputSources = None, camera_quaternion = level_view\<rparr>
     \<lparr>cameraRig_position = \<lparr>vx = 40, vy = 1.6, vz = 3\<rparr>, currentY = 1.6,
      terrainMeshes = [terrain_floor, terrain_step 0]\<rparr>
   = \<lparr>cameraRig_position = \<lparr>vx = 40, vy = 1.6, vz = 3\<rparr>, currentY = 1.6,
      terrainMeshes = [terrain_floor, terrain_step 0]\<rparr>"
  using ground_snap_every_frame [of box_query
      "\<lparr>isPresenting = False, inputSources = None, camera_quaternion = level_view\<rparr>"
      "\<lparr>cameraRig_position = \<lparr>vx = 0, vy = 1.6, vz = -5.5\<rparr>, currentY = 1.6,
        terrainMeshes = [terrain_floor, terrain_step 0]\<rparr>"]
    ground_snap_every_frame [of box_query
      "\<lparr>isPresenting = False, inputSources = None, camera_quaternion = level_view\<rparr>"
      "\<lparr>cameraRig_position = \<lparr>vx = 40, vy = 1.6, vz = 3\<rparr>, currentY = 1.6,
        terrainMeshes = [terrain_floor, terrain_step 0]\<rparr>"]
  by (simp add: Let_def terrain_movement_def box_defs lerp_def addScaledVector_def)

text \<open>
  C2. When the sampler gives a move vector, the next position is the rig's position plus
  0.05 times the vector, and the same downward probe is cast beneath it. When it hits at
  height \<open>h2\<close>, the rig takes the \<open>x\<close> and \<open>z\<close> of the next position, \<open>currentY\<close> becomes
  \<open>lerp(currentY, h2 + 1.6, 0.2)\<close>, and the rig's \<open>y\<close> becomes the new \<open>currentY\<close>.
\<close>

theorem proactive_move_commit:
  assumes "sample q inputSource = Some moveVector"
    and "nextPos = \<lparr>vx = vx (cameraRig_position s) + vx moveVector * 0.05,
                    vy = vy (cameraRig_position s) + vy moveVector * 0.05,
                    vz = vz (cameraRig_position s) + vz moveVector * 0.05\<rparr>"
    and "isect (downRay nextPos) (terrainMeshes s) True = hit # rest"
  shows "terrain_input isect q inputSource s =
           s\<lparr>currentY := lerp (currentY s) (vy (point hit) + 1.6) 0.2,
             cameraRig_position :=
               \<lparr>vx = vx nextPos, vy = lerp (currentY s) (vy (point hit) + 1.6) 0.2, vz = vz nextPos\<rparr>\<rparr>"
  using assms by (rule terrain_input_commit)

theorem proactive_move_commit_witness:
  "sample level_view (left_stick 0 (-1)) = Some \<lparr>vx = 0, vy = 0, vz = -1\<rparr>
   \<and> box_query (downRay \<lparr>vx = 0, vy = 1.6, vz = -4.35\<rparr>) [terrain_floor, terrain_step 0] True
       = [\<lparr>distance = 6.4, point = \<lparr>vx = 0, vy = 0.2, vz = -4.35\<rparr>\<rparr>,
          \<lparr>distance = 6.6, point = \<lparr>vx = 0, vy = 0, vz = -4.35\<rparr>\<rparr>]
   \<and> terrain_input box_query level_view (left_stick 0 (-1))
       \<lparr>cameraRig_position = \<lparr>vx = 0, vy = 1.6, vz = -4.3\<rparr>, currentY = 1.6,
        terrainMeshes = [terrain_floor, terrain_step 0]\<rparr>
       = \<lparr>cameraRig_position = \<lparr>vx = 0, vy = 1.64, vz = -4.35\<rparr>, currentY = 1.64,
          terrainMeshes = [terrain_floor, terrain_step 0]\<rparr>"
proof -
  have a: "sample level_view (left_stick 0 (-1)) = Some \<lparr>vx = 0, vy = 0, vz = -1\<rparr>"
    by (simp add: input_defs vec_defs)
  have b: "box_query (downRay \<lparr>vx = 0, vy = 1.6, vz = -4.35\<rparr>) [terrain_floor, terrain_step 0] True
       = [\<lparr>distance = 6.4, point = \<lparr>vx = 0, vy = 0.2, vz = -4.35\<rparr>\<rparr>,
          \<lparr>distance = 6.6, point = \<lparr>vx = 0, vy = 0, vz = -4.35\<rparr>\<rparr>]"
    by (simp add: box_defs downRay_def addScaledVector_def)
  show ?thesis
    using proactive_move_commit [of level_view "left_stick 0 (-1)" "\<lparr>vx = 0, vy = 0, vz = -1\<rparr>"
        "\<lparr>vx = 0, vy = 1.6, vz = -4.35\<rparr>"
        "\<lparr>cameraRig_position = \<lparr>vx = 0, vy = 1.6, vz = -4.3\<rparr>, currentY = 1.6,
          terrainMeshes = [terrain_floor, terrain_step 0]\<rparr>" box_query
        "\<lparr>distance = 6.4, point = \<lparr>vx = 0, vy = 0.2, vz = -4.35\<rparr>\<rparr>"
        "[\<lparr>distance = 6.6, point = \<lparr>vx = 0, vy = 0, vz = -4.35\<rparr>\<rparr>]"] a b
    by (simp add: lerp_def)
qed

text \<open>
  C3. When the sampler gives a move vector and the probe beneath the next position hits
  nothing, the rig is still moved by 0.05 times the vector, and the step updates no height:
  \<open>currentY\<close> and the rig's \<open>y\<close> stay.
\<close>

theorem proactive_move_fallback:
  assumes "sample q inputSource = Some moveVector"
    and "nextPos = \<lparr>vx = vx (cameraRig_position s) + vx moveVector * 0.05,
                    vy = vy (cameraRig_position s) + vy moveVector * 0.05,
                    vz = vz (cameraRig_position s) + vz moveVector * 0.05\<rparr>"
    and "isect (downRay nextPos) (terrainMeshes s) True = []"
  shows "terrain_input isect q inputSource s = s\<lparr>cameraRig_position := nextPos\<rparr>
         \<and> currentY (terrain_input isect q inputSource s) = currentY s
         \<and> vy (cameraRig_position (terrain_input isect q inputSource s)) = vy (cameraRig_position s)"
proof -
  have np: "nextPos = addScaledVector (cameraRig_position s) moveVector 0.05"
    using assms(2) by (simp add: addScaledVector_def)
  with assms(3) have "isect (downRay (addScaledVector (cameraRig_position s) moveVector 0.05))
      (terrainMeshes s) True = []" by simp
  then have "terrain_move isect moveVector s =
     s\<lparr>cameraRig_position := addScaledVector (cameraRig_position s) moveVector 0.05\<rparr>"
    by (rule terrain_move_miss)
  with assms(1) np sample_vy [OF assms(1)] show ?thesis
    by (simp add: terrain_input_def addScaledVector_def)
qed

theorem proactive_move_fallback_witness:
  "sample level_view (left_stick 0 1) = Some \<lparr>vx = 0, vy = 0, vz = 1\<rparr>
   \<and> box_query (downRay \<lparr>vx = 0, vy = 1.6, vz = 15.03\<rparr>) [terrain_floor, terrain_step 0] True = []
   \<and> terrain_input box_query level_view (left_stick 0 1)
       \<lparr>cameraRig_position = \<lparr>vx = 0, vy = 1.6, vz = 14.98\<rparr>, currentY = 1.6,
        terrainMeshes = [terrain_floor, terrain_step 0]\<rparr>
       = \<lparr>cameraRig_position = \<lparr>vx = 0, vy = 1.6, vz = 15.03\<rparr>, currentY = 1.6,
          terrainMeshes = [terrain_floor, terrain_step 0]\<rparr>"
proof -
  have a: "sample level_view (left_stick 0 1) = Some \<lparr>vx = 0, vy = 0, vz = 1\<rparr>"
    by (simp add: input_defs vec_defs)
  have b: "box_query (downRay \<lparr>vx = 0, vy = 1.6, vz = 15.03\<rparr>) [terrain_floor, terrain_step 0] True = []"
    by (simp add: box_defs downRay_def addScaledVector_def)
  show ?thesis
    using proactive_move_fallback [of level_view "left_stick 0 1" "\<lparr>vx = 0, vy = 0, vz = 1\<rparr>"
        "\<lparr>vx = 0, vy = 1.6, vz = 15.03\<rparr>"
        "\<lparr>cameraRig_position = \<lparr>vx = 0, vy = 1.6, vz = 14.98\<rparr>, currentY = 1.6,
          terrainMeshes = [terrain_floor, terrain_step 0]\<rparr>" box_query] a b
    by simp
qed


section \<open>How currentY changes\<close>

lemma smoothed_trans:
  "smoothed isect ms c' c'' \<Longrightarrow> smoothed isect ms c c' \<Longrightarrow> smoothed isect ms c c''"
proof (induction rule: smoothed.induct)
  case smoothed_start
  then show ?case .
next
  case (smoothed_update c1 p hit rest)
  from smoothed_update.IH [OF smoothed_update.prems] smoothed_update.hyps(2)
  show ?case by (rule smoothed.smoothed_update)
qed

lemma smoothed_once:
  "isect (downRay p) ms True = hit # rest \<Longrightarrow>
   smoothed isect ms c (lerp c (vy (point hit) + 1.6) 0.2)"
  using smoothed_start [of isect ms c] by (rule smoothed_update)

lemma terrainFollowing_smoothed:
  "smoothed isect (terrainMeshes s) (currentY s) (currentY (fst (terrainFollowing isect s p)))
   \<and> terrainMeshes (fst (terrainFollowing isect s p)) = terrainMeshes s"
proof (cases "isect (downRay p) (terrainMeshes s) True")
  case Nil
  then show ?thesis by (simp add: terrainFollowing_miss smoothed_start)
next
  case (Cons hit rest)
  have "smoothed isect (terrainMeshes s) (currentY s) (lerp (currentY s) (vy (point hit) + 1.6) 0.2)"
    using Cons by (rule smoothed_once)
  with Cons show ?thesis by (simp add: terrainFollowing_hit)
qed

lemma terrain_move_smoothed:
  "smoothed isect (terrainMeshes s) (currentY s) (currentY (terrain_move isect moveDir s))
   \<and> terrainMeshes (terrain_move isect moveDir s) = terrainMeshes s"
proof (cases "isect (downRay (addScaledVector (cameraRig_position s) moveDir 0.05)) (terrainMeshes s) True")
  case Nil
  then show ?thesis by (simp add: terrain_move_miss smoothed_start)
next
  case (Cons hit rest)
  have "smoothed isect (terrainMeshes s) (currentY s) (lerp (currentY s) (vy (point hit) + 1.6) 0.2)"
    using Cons by (rule smoothed_once)
  with Cons show ?thesis by (simp add: terrain_move_hit)
qed

lemma terrain_input_smoothed:
  "smoothed isect (terrainMeshes s) (currentY s) (currentY (terrain_input isect q src s))
   \<and> terrainMeshes (terrain_input isect q src s) = terrainMeshes s"
  by (cases "sample q src") (simp_all add: terrain_input_def smoothed_start terrain_move_smoothed)

lemma fold_terrain_input_smoothed:
  "smoothed isect (terrainMeshes s) (currentY s) (currentY (fold (terrain_input isect q) sources s))
   \<and> terrainMeshes (fold (terrain_input isect q) sources s) = terrainMeshes s"
proof (induction sources arbitrary: s)
  case Nil
  show ?case by (simp add: smoothed_start)
next
  case (Cons src sources)
  let ?s1 = "terrain_input isect q src s"
  have a: "smoothed isect (terrainMeshes s) (currentY s) (currentY ?s1)"
    and m: "terrainMeshes ?s1 = terrainMeshes s"
    using terrain_input_smoothed [of isect s q src] by simp_all
  have b: "smoothed isect (terrainMeshes s) (currentY ?s1) (currentY (fold (terrain_input isect q) sources ?s1))"
    and m2: "terrainMeshes (fold (terrain_input isect q) sources ?s1) = terrainMeshes s"
    using Cons.IH [of ?s1] m by simp_all
  from smoothed_trans [OF b a] m2 show ?case by simp
qed

lemma terrain_movement_smoothed:
  "smoothed isect (terrainMeshes s) (currentY s) (currentY (terrain_movement isect frame s))
   \<and> terrainMeshes (terrain_movement isect frame s) = terrainMeshes s"
  by (simp add: terrain_movement_def smoothed_start fold_terrain_input_smoothed split: option.split)

lemma terrain_animate_smoothed:
  "smoothed isect (terrainMeshes s) (currentY s) (currentY (terrain_animate isect frame s))
   \<and> terrainMeshes (terrain_animate isect frame s) = terrainMeshes s"
proof -
  let ?s1 = "terrain_movement isect frame s"
  have a: "smoothed isect (terrainMeshes s) (currentY s) (currentY ?s1)"
    and m: "terrainMeshes ?s1 = terrainMeshes s"
    using terrain_movement_smoothed [of isect s frame] by simp_all
  have b: "smoothed isect (terrainMeshes s) (currentY ?s1)
             (currentY (fst (terrainFollowing isect ?s1 (cameraRig_position ?s1))))"
    and m2: "terrainMeshes (fst (terrainFollowing isect ?s1 (cameraRig_position ?s1))) = terrainMeshes s"
    using terrainFollowing_smoothed [of isect ?s1 "cameraRig_position ?s1"] m by simp_all
  from smoothed_trans [OF b a] m2 show ?thesis by (simp add: terrain_animate_def Let_def)
qed

text \<open>
  C4. Over any number of frames, from any state and in particular from the state after
  \<open>init\<close> (where \<open>currentY\<close> is 1.6), \<open>currentY\<close> is changed by smoothing updates only: its value
  after the frames is reached from its value before by updates of the form
  \<open>currentY := lerp(currentY, h + 1.6, 0.2)\<close>, each for the height \<open>h\<close> of the first hit of a
  downward probe against the terrain meshes, which the frames never change.
\<close>

theorem currentY_only_smoothed:
  "smoothed isect meshes 1.6 (currentY (terrain_run isect frames (terrain_init meshes)))
   \<and> smoothed isect (terrainMeshes s) (currentY s) (currentY (terrain_run isect frames s))
   \<and> terrainMeshes (terrain_run isect frames s) = terrainMeshes s"
proof -
  have run: "smoothed isect (terrainMeshes s) (currentY s) (currentY (terrain_run isect frames s))
       \<and> terrainMeshes (terrain_run isect frames s) = terrainMeshes s" for s :: "'a terrain"
    unfolding terrain_run_def
  proof (induction frames arbitrary: s)
    case Nil
    show ?case by (simp add: smoothed_start)
  next
    case (Cons frame frames)
    let ?s1 = "terrain_animate isect frame s"
    have a: "smoothed isect (terrainMeshes s) (currentY s) (currentY ?s1)"
      and m: "terrainMeshes ?s1 = terrainMeshes s"
      using terrain_animate_smoothed [of isect s frame] by simp_all
    have b: "smoothed isect (terrainMeshes s) (currentY ?s1)
               (currentY (fold (terrain_animate isect) frames ?s1))"
      and m2: "terrainMeshes (fold (terrain_animate isect) frames ?s1) = terrainMeshes s"
      using Cons.IH [of ?s1] m by simp_all
    from smoothed_trans [OF b a] m2 show ?case by simp
  qed
  from run [of s] run [of "terrain_init meshes"] show ?thesis
    by (simp add: terrain_init_def)
qed

theorem currentY_only_smoothed_witness:
  "smoothed box_query [terrain_floor, terrain_step 0] 1.6
     (currentY (terrain_run box_query
        [presenting level_view [left_stick 0 (-1)],
         \<lparr>isPresenting = False, inputSources = None, camera_quaternion = level_view\<rparr>]
        (terrain_init [terrain_floor, terrain_step 0])))
   \<and> smoothed box_query [terrain_floor, terrain_step 0] 1.6 1.6976
   \<and> terrain_run box_query
        [presenting level_view [left_stick 0 (-1)],
         \<lparr>isPresenting = False, inputSources = None, camera_quaternion = level_view\<rparr>]
        \<lparr>cameraRig_position = \<lparr>vx = 0, vy = 1.6, vz = -4.3\<rparr>, currentY = 1.6,
         terrainMeshes = [terrain_floor, terrain_step 0]\<rparr>
      = \<lparr>cameraRig_position = \<lparr>vx = 0, vy = 1.6976, vz = -4.35\<rparr>, currentY = 1.6976,
         terrainMeshes = [terrain_floor, terrain_step 0]\<rparr>"
proof -
  let ?frames = "[presenting level_view [left_stick 0 (-1)],
         \<lparr>isPresenting = False, inputSources = None, camera_quaternion = level_view\<rparr>]"
  let ?s = "\<lparr>cameraRig_position = \<lparr>vx = 0, vy = 1.6, vz = -4.3\<rparr>, currentY = 1.6,
         terrainMeshes = [terrain_floor, terrain_step 0]\<rparr>"
  have run: "terrain_run box_query ?frames ?s
      = \<lparr>cameraRig_position = \<lparr>vx = 0, vy = 1.6976, vz = -4.35\<rparr>, currentY = 1.6976,
         terrainMeshes = [terrain_floor, terrain_step 0]\<rparr>"
    by (simp add: terrain_run_def terrain_animate_def terrain_movement_def terrain_input_def
        terrain_move_def checkTerrainAtNextPosition_def terrainFollowing_def downRay_def
        interpolationFactor_def moveSpeed_def input_defs vec_defs box_defs Let_def)
  from currentY_only_smoothed [of box_query "[terrain_floor, terrain_step 0]" ?frames ?s] run
  show ?thesis by simp
qed

lemma smoothing_error: "smoothing t h n c - (h + 1.6) = (1 - t) ^ n * (c - (h + 1.6))"
proof (induction n)
  case 0
  show ?case by simp
next
  case (Suc n)
  have "smoothing t h (Suc n) c - (h + 1.6) = (1 - t) * (smoothing t h n c - (h + 1.6))"
    by (simp add: lerp_error)
  also have "\<dots> = (1 - t) * ((1 - t) ^ n * (c - (h + 1.6)))"
    by (simp only: Suc.IH)
  finally show ?case by simp
qed

lemma smoothing_tendsto:
  assumes "0 < t" "t < 1"
  shows "(\<lambda>n. smoothing t h n c) \<longlonglongrightarrow> h + 1.6"
proof -
  have p: "(\<lambda>n. (1 - t) ^ n) \<longlonglongrightarrow> 0"
    using assms LIMSEQ_realpow_zero [of "1 - t"] by simp
  have "(\<lambda>n. (1 - t) ^ n * (c - (h + 1.6)) + (h + 1.6)) \<longlonglongrightarrow> 0 * (c - (h + 1.6)) + (h + 1.6)"
    by (intro tendsto_add tendsto_mult p tendsto_const)
  moreover have "(\<lambda>n. (1 - t) ^ n * (c - (h + 1.6)) + (h + 1.6)) = (\<lambda>n. smoothing t h n c)"
    using smoothing_error [of t h _ c] by (auto simp: fun_eq_iff algebra_simps)
  ultimately show ?thesis by simp
qed

lemma smoothing_step_below:
  assumes "0 < t" "t < 1" "c \<le> h + 1.6"
  shows "smoothing t h n c \<le> smoothing t h (Suc n) c \<and> smoothing t h (Suc n) c \<le> h + 1.6"
proof -
  have e: "smoothing t h n c - (h + 1.6) = (1 - t) ^ n * (c - (h + 1.6))"
    by (rule smoothing_error)
  have "0 \<le> (1 - t) ^ n" using assms by simp
  then have "(1 - t) ^ n * (c - (h + 1.6)) \<le> 0"
    using assms(3) by (simp add: mult_nonneg_nonpos)
  with e have le: "smoothing t h n c \<le> h + 1.6" by simp
  have "smoothing t h (Suc n) c = smoothing t h n c + (h + 1.6 - smoothing t h n c) * t"
    by (simp add: lerp_def)
  moreover have "0 \<le> (h + 1.6 - smoothing t h n c) * t"
    using le assms(1) by simp
  moreover have "(h + 1.6 - smoothing t h n c) * t \<le> (h + 1.6 - smoothing t h n c) * 1"
    using le assms(2) by (intro mult_left_mono) simp_all
  ultimately show ?thesis by simp
qed

lemma smoothing_step_above:
  assumes "0 < t" "t < 1" "h + 1.6 \<le> c"
  shows "h + 1.6 \<le> smoothing t h (Suc n) c \<and> smoothing t h (Suc n) c \<le> smoothing t h n c"
proof -
  have e: "smoothing t h n c - (h + 1.6) = (1 - t) ^ n * (c - (h + 1.6))"
    by (rule smoothing_error)
  have "0 \<le> (1 - t) ^ n" using assms by simp
  then have "0 \<le> (1 - t) ^ n * (c - (h + 1.6))"
    using assms(3) by simp
  with e have ge: "h + 1.6 \<le> smoothing t h n c" by simp
  have "smoothing t h (Suc n) c = smoothing t h n c - (smoothing t h n c - (h + 1.6)) * t"
    by (simp add: lerp_def algebra_simps)
  moreover have "0 \<le> (smoothing t h n c - (h + 1.6)) * t"
    using ge assms(1) by simp
  moreover have "(smoothing t h n c - (h + 1.6)) * t \<le> (smoothing t h n c - (h + 1.6)) * 1"
    using ge assms(2) by (intro mult_left_mono) simp_all
  ultimately show ?thesis by simp
qed

lemma smoothing_closer:
  assumes "0 < t" "t < 1" "c \<noteq> h + 1.6"
  shows "\<bar>smoothing t h (Suc n) c - (h + 1.6)\<bar> < \<bar>smoothing t h n c - (h + 1.6)\<bar>"
proof -
  have "\<bar>smoothing t h (Suc n) c - (h + 1.6)\<bar> = (1 - t) * \<bar>smoothing t h n c - (h + 1.6)\<bar>"
    using assms(1,2) by (simp add: lerp_error abs_mult)
  moreover have "smoothing t h n c - (h + 1.6) \<noteq> 0"
    using assms by (simp only: smoothing_error) simp
  then have "0 < \<bar>smoothing t h n c - (h + 1.6)\<bar>"
    by simp
  ultimately show ?thesis using assms(1) by simp
qed

lemma terrain_animate_idle_hit:
  assumes "isect (downRay (cameraRig_position s)) (terrainMeshes s) True = hit # rest"
  shows "terrain_animate isect \<lparr>isPresenting = False, inputSources = srcs, camera_quaternion = q\<rparr> s =
     s\<lparr>currentY := lerp (currentY s) (vy (point hit) + 1.6) 0.2,
        cameraRig_position :=
          (cameraRig_position s)\<lparr>vy := lerp (currentY s) (vy (point hit) + 1.6) 0.2\<rparr>\<rparr>"
  using terrainFollowing_hit [of isect "cameraRig_position s" s hit rest] assms
  by (simp add: terrain_animate_def terrain_movement_def)

lemma stationary_frames_smoothing:
  assumes "\<And>p. \<exists>hit rest. isect (downRay p) (terrainMeshes s) True = hit # rest \<and> vy (point hit) = h"
  shows "currentY (terrain_run isect
            (replicate n \<lparr>isPresenting = False, inputSources = srcs, camera_quaternion = q\<rparr>) s)
         = smoothing 0.2 h n (currentY s)
       \<and> terrainMeshes (terrain_run isect
            (replicate n \<lparr>isPresenting = False, inputSources = srcs, camera_quaternion = q\<rparr>) s)
         = terrainMeshes s"
proof (induction n)
  case 0
  show ?case by (simp add: terrain_run_def)
next
  case (Suc n)
  let ?f = "\<lparr>isPresenting = False, inputSources = srcs, camera_quaternion = q\<rparr>"
  let ?s1 = "terrain_run isect (replicate n ?f) s"
  have "replicate (Suc n) ?f = replicate n ?f @ [?f]"
    by (simp add: replicate_append_same)
  then have r: "terrain_run isect (replicate (Suc n) ?f) s = terrain_animate isect ?f ?s1"
    by (simp only: terrain_run_def fold_append fold.simps comp_def id_def)
  from assms [of "cameraRig_position ?s1"] Suc.IH obtain hit rest where
    h: "isect (downRay (cameraRig_position ?s1)) (terrainMeshes ?s1) True = hit # rest"
      "vy (point hit) = h"
    by auto
  from h(1) have "terrain_animate isect ?f ?s1 =
     ?s1\<lparr>currentY := lerp (currentY ?s1) (vy (point hit) + 1.6) 0.2,
        cameraRig_position :=
          (cameraRig_position ?s1)\<lparr>vy := lerp (currentY ?s1) (vy (point hit) + 1.6) 0.2\<rparr>\<rparr>"
    by (rule terrain_animate_idle_hit)
  with h(2) Suc.IH r show ?case
    by simp
qed

text \<open>
  C5. For a constant ground height \<open>h\<close>, a smoothing factor \<open>t\<close> strictly between 0 and 1
  and any start value, the repeated update \<open>c := lerp(c, h + 1.6, t)\<close> converges to
  \<open>h + 1.6\<close>; from below it rises and never exceeds \<open>h + 1.6\<close>, from above it falls and never
  goes under it, and away from \<open>h + 1.6\<close> every update strictly shrinks the distance to it.
  One update from 1.6 with \<open>h = 0.2\<close> and \<open>t = 0.2\<close> gives 1.64, and \<open>h + 1.6\<close> is a fixed point.
\<close>

theorem smoothing_converges:
  assumes "0 < t" and "t < 1"
  shows "(\<lambda>n. smoothing t h n c) \<longlonglongrightarrow> h + 1.6
    \<and> (c \<le> h + 1.6 \<longrightarrow>
         (\<forall>n. smoothing t h n c \<le> smoothing t h (Suc n) c \<and> smoothing t h (Suc n) c \<le> h + 1.6))
    \<and> (h + 1.6 \<le> c \<longrightarrow>
         (\<forall>n. h + 1.6 \<le> smoothing t h (Suc n) c \<and> smoothing t h (Suc n) c \<le> smoothing t h n c))
    \<and> (c \<noteq> h + 1.6 \<longrightarrow>
         (\<forall>n. \<bar>smoothing t h (Suc n) c - (h + 1.6)\<bar> < \<bar>smoothing t h n c - (h + 1.6)\<bar>))
    \<and> lerp 1.6 (0.2 + 1.6) 0.2 = 1.64
    \<and> lerp (h + 1.6) (h + 1.6) t = h + 1.6"
proof -
  have "lerp 1.6 (0.2 + 1.6) 0.2 = 1.64" "lerp (h + 1.6) (h + 1.6) t = h + 1.6"
    by (simp_all add: lerp_def)
  with smoothing_tendsto [OF assms] smoothing_step_below [OF assms] smoothing_step_above [OF assms]
    smoothing_closer [OF assms]
  show ?thesis by blast
qed

theorem smoothing_converges_witness:
  "(0::real) < 0.2 \<and> (0.2::real) < 1
   \<and> (\<lambda>n. smoothing 0.2 0.2 n 1.6) \<longlonglongrightarrow> 1.8
   \<and> smoothing 0.2 0.2 0 1.6 = 1.6
   \<and> smoothing 0.2 0.2 1 1.6 = 1.64
   \<and> smoothing 0.2 0.2 2 1.6 = 1.672
   \<and> smoothing 0.2 0.2 1 1.6 \<le> smoothing 0.2 0.2 2 1.6
   \<and> smoothing 0.2 0.2 2 1.6 \<le> 1.8
   \<and> smoothing 0.2 0.2 1 2 = 1.96
   \<and> 1.8 \<le> smoothing 0.2 0.2 1 2 \<and> smoothing 0.2 0.2 1 2 \<le> smoothing 0.2 0.2 0 2"
proof -
  have t: "(0::real) < 0.2" "(0.2::real) < 1" by simp_all
  have v: "smoothing 0.2 0.2 0 1.6 = 1.6" "smoothing 0.2 0.2 1 1.6 = 1.64"
    "smoothing 0.2 0.2 2 1.6 = 1.672" "smoothing 0.2 0.2 1 2 = 1.96"
    by (simp_all add: lerp_def numeral_2_eq_2)
  from smoothing_converges [OF t, of "0.2" "1.6"] smoothing_converges [OF t, of "0.2" 2] t v
  show ?thesis by simp
qed

section \<open>The input sampler\<close>

text \<open>
  C6. When both thumbstick axes are at most 0.15 in absolute value, the sampler gives no move
  vector, and the movement of the frame leaves the state, and so the rig, as it was.
\<close>

theorem deadzone_no_movement:
  assumes "max \<bar>x\<bar> \<bar>y\<bar> \<le> 0.15"
    and "gamepad inputSource = Some axes" and "axes ! 2 = x" and "axes ! 3 = y"
  shows "sample q inputSource = None
    \<and> terrain_input isect q inputSource s = s
    \<and> terrain_movement isect
         \<lparr>isPresenting = True, inputSources = Some [inputSource], camera_quaternion = q\<rparr> s = s"
proof -
  have "thumbstick inputSource = None"
    using assms thumbstick_deadzone [of inputSource axes] by simp
  then have n: "sample q inputSource = None" by (simp add: sample_def)
  then show ?thesis by (simp add: terrain_input_idle terrain_movement_def)
qed

theorem deadzone_no_movement_witness:
  "max \<bar>0.15::real\<bar> \<bar>- 0.1\<bar> \<le> 0.15
   \<and> gamepad (left_stick 0.15 (- 0.1)) = Some [0, 0, 0.15, - 0.1]
   \<and> [0, 0, 0.15, - 0.1 :: real] ! 2 = 0.15 \<and> [0, 0, 0.15, - 0.1 :: real] ! 3 = - 0.1
   \<and> sample level_view (left_stick 0.15 (- 0.1)) = None
   \<and> terrain_movement box_query
       \<lparr>isPresenting = True, inputSources = Some [left_stick 0.15 (- 0.1)], camera_quaternion = level_view\<rparr>
       (terrain_init [terrain_floor]) = terrain_init [terrain_floor]"
proof -
  have a: "max \<bar>0.15::real\<bar> \<bar>- 0.1\<bar> \<le> 0.15" by simp
  have b: "gamepad (left_stick 0.15 (- 0.1)) = Some [0, 0, 0.15, - 0.1]"
    by (simp add: left_stick_def)
  have c: "[0, 0, 0.15, - 0.1 :: real] ! 2 = 0.15" "[0, 0, 0.15, - 0.1 :: real] ! 3 = - 0.1"
    by (simp_all add: numeral_2_eq_2 numeral_3_eq_3)
  from deadzone_no_movement [OF a b c, of level_view box_query "terrain_init [terrain_floor]"] a b c
  show ?thesis by simp
qed

text \<open>
  C7, as stated, fails: with the camera turned so that the stick's direction points straight
  up, the rotated vector has no horizontal part, and the sampler returns the zero vector,
  whose length is 0.
\<close>

theorem sample_not_unit_counterexample:
  "applyQuaternion \<lparr>vx = 1, vy = 0, vz = 0\<rparr> \<lparr>qx = 0.5, qy = 0.5, qz = 0.5, qw = 0.5\<rparr>
     = \<lparr>vx = 0, vy = 1, vz = 0\<rparr>
   \<and> sample \<lparr>qx = 0.5, qy = 0.5, qz = 0.5, qw = 0.5\<rparr> (left_stick 1 0)
     = Some \<lparr>vx = 0, vy = 0, vz = 0\<rparr>
   \<and> vlength \<lparr>vx = 0, vy = 0, vz = 0\<rparr> = 0
   \<and> vlength \<lparr>vx = 0, vy = 0, vz = 0\<rparr> \<noteq> 1"
  by (simp add: input_defs vec_defs)

text \<open>
  C7, amended. Every move vector the sampler returns has vertical component 0, and it has
  length 1 unless the rotated stick vector has no horizontal part, in which case it is the
  zero vector.
\<close>

theorem sample_unit_or_zero:
  assumes "sample q inputSource = Some v"
  shows "vy v = 0
    \<and> (\<exists>x y. thumbstick inputSource = Some (x, y)
          \<and> (let r = applyQuaternion \<lparr>vx = x, vy = 0, vz = y\<rparr> q
             in if vx r = 0 \<and> vz r = 0 then v = \<lparr>vx = 0, vy = 0, vz = 0\<rparr> else vlength v = 1))"
proof -
  from assms obtain stick where s: "thumbstick inputSource = Some stick" "v = stickDirection q stick"
    by (auto simp: sample_Some_iff)
  obtain x y where xy: "stick = (x, y)" by (cases stick)
  from s xy stickDirection_length [of x y q] sample_vy [OF assms] show ?thesis
    by (auto simp: Let_def)
qed

theorem sample_unit_or_zero_witness:
  "sample level_view (left_stick 1 0) = Some \<lparr>vx = 1, vy = 0, vz = 0\<rparr>
   \<and> thumbstick (left_stick 1 0) = Some (1, 0)
   \<and> applyQuaternion \<lparr>vx = 1, vy = 0, vz = 0\<rparr> level_view = \<lparr>vx = 1, vy = 0, vz = 0\<rparr>
   \<and> vlength \<lparr>vx = 1, vy = 0, vz = 0\<rparr> = 1
   \<and> sample \<lparr>qx = 0.5, qy = 0.5, qz = 0.5, qw = 0.5\<rparr> (left_stick 1 0) = Some \<lparr>vx = 0, vy = 0, vz = 0\<rparr>
   \<and> applyQuaternion \<lparr>vx = 1, vy = 0, vz = 0\<rparr> \<lparr>qx = 0.5, qy = 0.5, qz = 0.5, qw = 0.5\<rparr>
       = \<lparr>vx = 0, vy = 1, vz = 0\<rparr>"
proof -
  have a: "sample level_view (left_stick 1 0) = Some \<lparr>vx = 1, vy = 0, vz = 0\<rparr>"
    by (simp add: input_defs vec_defs)
  have b: "sample \<lparr>qx = 0.5, qy = 0.5, qz = 0.5, qw = 0.5\<rparr> (left_stick 1 0) = Some \<lparr>vx = 0, vy = 0, vz = 0\<rparr>"
    by (simp add: input_defs vec_defs)
  have c: "thumbstick (left_stick 1 0) = Some (1, 0)"
    by (simp add: input_defs)
  from sample_unit_or_zero [OF a] sample_unit_or_zero [OF b] a b c show ?thesis
    by (simp add: applyQuaternion_def level_view_def Let_def)
qed

section \<open>A moving frame of terrain.js\<close>

lemma terrain_frame_commit_snap:
  assumes "sample q inputSource = Some moveVector"
    and "\<forall>src \<in> set before. sample q src = None" and "\<forall>src \<in> set after. sample q src = None"
    and "nextPos = \<lparr>vx = vx (cameraRig_position s) + vx moveVector * 0.05,
                    vy = vy (cameraRig_position s) + vy moveVector * 0.05,
                    vz = vz (cameraRig_position s) + vz moveVector * 0.05\<rparr>"
    and "isect (downRay nextPos) (terrainMeshes s) True = hit2 # rest2"
    and "c1 = lerp (currentY s) (vy (point hit2) + 1.6) 0.2"
    and "isect (downRay \<lparr>vx = vx nextPos, vy = c1, vz = vz nextPos\<rparr>) (terrainMeshes s) True = hit # rest"
    and "frame = \<lparr>isPresenting = True, inputSources = Some (before @ inputSource # after),
                  camera_quaternion = q\<rparr>"
  shows "currentY (terrain_movement isect frame s) = c1
    \<and> terrain_animate isect frame s =
        s\<lparr>currentY := lerp c1 (vy (point hit) + 1.6) 0.2,
          cameraRig_position :=
            \<lparr>vx = vx nextPos, vy = lerp c1 (vy (point hit) + 1.6) 0.2, vz = vz nextPos\<rparr>\<rparr>"
proof -
  have m: "terrain_movement isect frame s = terrain_input isect q inputSource s"
    using assms(2,3,8) by (simp add: terrain_movement_def fold_terrain_input_idle)
  have "terrain_input isect q inputSource s =
           s\<lparr>currentY := lerp (currentY s) (vy (point hit2) + 1.6) 0.2,
             cameraRig_position :=
               \<lparr>vx = vx nextPos, vy = lerp (currentY s) (vy (point hit2) + 1.6) 0.2, vz = vz nextPos\<rparr>\<rparr>"
    using assms(1,4,5) by (rule terrain_input_commit)
  with m assms(6) have s1: "terrain_movement isect frame s =
      s\<lparr>currentY := c1, cameraRig_position := \<lparr>vx = vx nextPos, vy = c1, vz = vz nextPos\<rparr>\<rparr>"
    by simp
  let ?s1 = "s\<lparr>currentY := c1, cameraRig_position := \<lparr>vx = vx nextPos, vy = c1, vz = vz nextPos\<rparr>\<rparr>"
  have "isect (downRay (cameraRig_position ?s1)) (terrainMeshes ?s1) True = hit # rest"
    using assms(7) by simp
  then have "terrainFollowing isect ?s1 (cameraRig_position ?s1) =
     (?s1\<lparr>currentY := lerp (currentY ?s1) (vy (point hit) + 1.6) 0.2,
        cameraRig_position :=
          (cameraRig_position ?s1)\<lparr>vy := lerp (currentY ?s1) (vy (point hit) + 1.6) 0.2\<rparr>\<rparr>, True)"
    by (rule terrainFollowing_hit)
  with s1 show ?thesis
    by (simp add: terrain_animate_def Let_def)
qed

text \<open>
  C10. In a frame where one input source gives a move vector and ground is found beneath the
  next position, \<open>currentY\<close> is updated twice: first toward the ground height \<open>h2\<close> beneath
  the next position by the proactive check, then toward the height \<open>h\<close> that the ground snap of
  the same frame finds beneath the rig's new position. The frame ends with \<open>currentY\<close> and the
  rig's \<open>y\<close> at \<open>lerp(lerp(c, h2 + 1.6, 0.2), h + 1.6, 0.2)\<close>.
\<close>

theorem moving_frame_two_updates:
  assumes "sample q inputSource = Some moveVector"
    and "\<forall>src \<in> set before. sample q src = None" and "\<forall>src \<in> set after. sample q src = None"
    and "nextPos = \<lparr>vx = vx (cameraRig_position s) + vx moveVector * 0.05,
                    vy = vy (cameraRig_position s) + vy moveVector * 0.05,
                    vz = vz (cameraRig_position s) + vz moveVector * 0.05\<rparr>"
    and "isect (downRay nextPos) (terrainMeshes s) True = hit2 # rest2"
    and "c1 = lerp (currentY s) (vy (point hit2) + 1.6) 0.2"
    and "isect (downRay \<lparr>vx = vx nextPos, vy = c1, vz = vz nextPos\<rparr>) (terrainMeshes s) True = hit # rest"
    and "frame = \<lparr>isPresenting = True, inputSources = Some (before @ inputSource # after),
                  camera_quaternion = q\<rparr>"
  shows "currentY (terrain_movement isect frame s) = c1
    \<and> terrain_animate isect frame s =
        s\<lparr>currentY := lerp c1 (vy (point hit) + 1.6) 0.2,
          cameraRig_position :=
            \<lparr>vx = vx nextPos, vy = lerp c1 (vy (point hit) + 1.6) 0.2, vz = vz nextPos\<rparr>\<rparr>"
  using assms by (rule terrain_frame_commit_snap)

theorem moving_frame_two_updates_witness:
  "sample level_view (left_stick 0 (-1)) = Some \<lparr>vx = 0, vy = 0, vz = -1\<rparr>
   \<and> sample level_view \<lparr>handedness = ''right'', gamepad = Some [0, 0, 1, 1]\<rparr> = None
   \<and> box_query (downRay \<lparr>vx = 0, vy = 1.6, vz = -4.35\<rparr>) [terrain_floor, terrain_step 0] True
       = [\<lparr>distance = 6.4, point = \<lparr>vx = 0, vy = 0.2, vz = -4.35\<rparr>\<rparr>,
          \<lparr>distance = 6.6, point = \<lparr>vx = 0, vy = 0, vz = -4.35\<rparr>\<rparr>]
   \<and> box_query (downRay \<lparr>vx = 0, vy = 1.64, vz = -4.35\<rparr>) [terrain_floor, terrain_step 0] True
       = [\<lparr>distance = 6.44, point = \<lparr>vx = 0, vy = 0.2, vz = -4.35\<rparr>\<rparr>,
          \<lparr>distance = 6.64, point = \<lparr>vx = 0, vy = 0, vz = -4.35\<rparr>\<rparr>]
   \<and> terrain_animate box_query
       \<lparr>isPresenting = True,
        inputSources = Some [left_stick 0 (-1), \<lparr>handedness = ''right'', gamepad = Some [0, 0, 1, 1]\<rparr>],
        camera_quaternion = level_view\<rparr>
       \<lparr>cameraRig_position = \<lparr>vx = 0, vy = 1.6, vz = -4.3\<rparr>, currentY = 1.6,
        terrainMeshes = [terrain_floor, terrain_step 0]\<rparr>
       = \<lparr>cameraRig_position = \<lparr>vx = 0, vy = 1.672, vz = -4.35\<rparr>, currentY = 1.672,
          terrainMeshes = [terrain_floor, terrain_step 0]\<rparr>"
proof -
  let ?s = "\<lparr>cameraRig_position = \<lparr>vx = 0, vy = 1.6, vz = -4.3\<rparr>, currentY = 1.6,
        terrainMeshes = [terrain_floor, terrain_step 0]\<rparr>"
  let ?right = "\<lparr>handedness = ''right'', gamepad = Some [0, 0, 1, 1]\<rparr>"
  let ?frame = "\<lparr>isPresenting = True, inputSources = Some ([] @ left_stick 0 (-1) # [?right]),
        camera_quaternion = level_view\<rparr>"
  have a: "sample level_view (left_stick 0 (-1)) = Some \<lparr>vx = 0, vy = 0, vz = -1\<rparr>"
    by (simp add: input_defs vec_defs)
  have b: "\<forall>src \<in> set []. sample level_view src = None" by simp
  have r: "sample level_view ?right = None" by (simp add: input_defs)
  then have c: "\<forall>src \<in> set [?right]. sample level_view src = None" by simp
  have d: "\<lparr>vx = 0, vy = 1.6, vz = -4.35\<rparr> =
      \<lparr>vx = vx (cameraRig_position ?s) + vx \<lparr>vx = 0, vy = 0, vz = -1\<rparr> * 0.05,
       vy = vy (cameraRig_position ?s) + vy \<lparr>vx = 0, vy = 0, vz = -1\<rparr> * 0.05,
       vz = vz (cameraRig_position ?s) + vz \<lparr>vx = 0, vy = 0, vz = -1\<rparr> * 0.05\<rparr>"
    by simp
  have e: "box_query (downRay \<lparr>vx = 0, vy = 1.6, vz = -4.35\<rparr>) (terrainMeshes ?s) True
       = \<lparr>distance = 6.4, point = \<lparr>vx = 0, vy = 0.2, vz = -4.35\<rparr>\<rparr> #
          [\<lparr>distance = 6.6, point = \<lparr>vx = 0, vy = 0, vz = -4.35\<rparr>\<rparr>]"
    by (simp add: box_defs downRay_def addScaledVector_def)
  have f: "1.64 = lerp (currentY ?s) (vy (point \<lparr>distance = 6.4, point = \<lparr>vx = 0, vy = 0.2, vz = -4.35\<rparr>\<rparr>) + 1.6) 0.2"
    by (simp add: lerp_def)
  have g: "box_query (downRay \<lparr>vx = vx \<lparr>vx = 0, vy = 1.6, vz = -4.35\<rparr>, vy = 1.64,
                                vz = vz \<lparr>vx = 0, vy = 1.6, vz = -4.35\<rparr>\<rparr>) (terrainMeshes ?s) True
       = \<lparr>distance = 6.44, point = \<lparr>vx = 0, vy = 0.2, vz = -4.35\<rparr>\<rparr> #
          [\<lparr>distance = 6.64, point = \<lparr>vx = 0, vy = 0, vz = -4.35\<rparr>\<rparr>]"
    by (simp add: box_defs downRay_def addScaledVector_def)
  have h: "?frame = ?frame" by simp
  from moving_frame_two_updates [where q = level_view and inputSource = "left_stick 0 (-1)"
      and moveVector = "\<lparr>vx = 0, vy = 0, vz = -1\<rparr>" and before = "[]" and after = "[?right]"
      and nextPos = "\<lparr>vx = 0, vy = 1.6, vz = -4.35\<rparr>" and s = ?s and isect = box_query
      and ?hit2.0 = "\<lparr>distance = 6.4, point = \<lparr>vx = 0, vy = 0.2, vz = -4.35\<rparr>\<rparr>"
      and ?rest2.0 = "[\<lparr>distance = 6.6, point = \<lparr>vx = 0, vy = 0, vz = -4.35\<rparr>\<rparr>]"
      and ?c1.0 = "1.64"
      and hit = "\<lparr>distance = 6.44, point = \<lparr>vx = 0, vy = 0.2, vz = -4.35\<rparr>\<rparr>"
      and rest = "[\<lparr>distance = 6.64, point = \<lparr>vx = 0, vy = 0, vz = -4.35\<rparr>\<rparr>]"
      and frame = ?frame, OF a b c d e f g h] a r e g
  show ?thesis
    by (simp add: lerp_def)
qed

subsection \<open>The ground snap of a moving frame, for box meshes\<close>

text \<open>
  The rig's \<open>y\<close> equals \<open>currentY\<close> after \<open>init\<close>, and every frame keeps it so. In such a state,
  when the probe beneath the next position hits a box, the ground snap of the same frame,
  cast from the smoothed height, hits too: the box it entered after \<open>t\<close> is entered after
  \<open>0.8 * t + 1.32\<close>, which is within the range. So for box meshes the second update of a
  moving frame never fails to happen.
\<close>

lemma set_map_filter: "set (List.map_filter f xs) = {y. \<exists>x \<in> set xs. f x = Some y}"
  by (induction xs) (auto split: option.splits)

lemma set_box_query:
  "set (box_query r meshes recursive) =
     {\<lparr>distance = t, point = addScaledVector (origin r) (direction r) t\<rparr> | t b.
        b \<in> set meshes \<and> box_entry r b = Some t}"
  by (auto simp: box_query_def set_map_filter)

lemma box_query_hit:
  assumes "box_query r meshes recursive = hit # rest"
  shows "\<exists>b \<in> set meshes. box_entry r b = Some (distance hit)
           \<and> point hit = addScaledVector (origin r) (direction r) (distance hit)"
proof -
  have "hit \<in> set (box_query r meshes recursive)" using assms by simp
  then show ?thesis by (auto simp: set_box_query)
qed

lemma box_query_nonempty:
  assumes "b \<in> set meshes" and "box_entry r b = Some t"
  shows "box_query r meshes recursive \<noteq> []"
proof -
  have "\<lparr>distance = t, point = addScaledVector (origin r) (direction r) t\<rparr>
          \<in> set (box_query r meshes recursive)"
    using assms by (auto simp: set_box_query)
  then show ?thesis by auto
qed

lemma box_entry_downRay:
  "box_entry (downRay p) b = Some t \<longleftrightarrow>
     vx (box_min b) \<le> vx p \<and> vx p \<le> vx (box_max b) \<and>
     vz (box_min b) \<le> vz p \<and> vz p \<le> vz (box_max b) \<and>
     t = min (vy p + 5 - vy (box_min b)) (vy p + 5 - vy (box_max b)) \<and> 0 \<le> t \<and> t \<le> 20"
  by (auto simp: box_entry_def downRay_def slab_def Let_def)

lemma box_snap_probe_hits:
  assumes "box_query (downRay p) meshes True = hit # rest"
  shows "box_query (downRay \<lparr>vx = vx p, vy = lerp (vy p) (vy (point hit) + 1.6) 0.2, vz = vz p\<rparr>)
           meshes True \<noteq> []"
proof -
  from box_query_hit [OF assms] obtain b where b: "b \<in> set meshes"
    and e: "box_entry (downRay p) b = Some (distance hit)"
    and pt: "point hit = addScaledVector (origin (downRay p)) (direction (downRay p)) (distance hit)"
    by auto
  let ?t = "distance hit"
  from pt have y: "vy (point hit) = vy p + 5 - ?t"
    by (simp add: addScaledVector_def downRay_def)
  let ?c = "lerp (vy p) (vy (point hit) + 1.6) 0.2"
  have c: "?c = vy p + (6.6 - ?t) * 0.2" by (simp add: lerp_def y)
  from e have r: "vx (box_min b) \<le> vx p" "vx p \<le> vx (box_max b)"
    "vz (box_min b) \<le> vz p" "vz p \<le> vz (box_max b)"
    "?t = min (vy p + 5 - vy (box_min b)) (vy p + 5 - vy (box_max b))" "0 \<le> ?t" "?t \<le> 20"
    unfolding box_entry_downRay by blast+
  let ?t' = "min (?c + 5 - vy (box_min b)) (?c + 5 - vy (box_max b))"
  have t': "?t' = ?t + (6.6 - ?t) * 0.2" using r(5) c by (simp add: min_def)
  have "0 \<le> ?t + (6.6 - ?t) * 0.2" "?t + (6.6 - ?t) * 0.2 \<le> 20"
    using r(6,7) by (simp_all add: algebra_simps)
  with t' have "0 \<le> ?t'" "?t' \<le> 20" by simp_all
  with r(1-4) have "box_entry (downRay \<lparr>vx = vx p, vy = ?c, vz = vz p\<rparr>) b = Some ?t'"
    by (simp add: box_entry_downRay)
  with b show ?thesis by (rule box_query_nonempty)
qed

lemma terrainFollowing_height:
  "vy (cameraRig_position s) = currentY s \<Longrightarrow>
   vy (cameraRig_position (fst (terrainFollowing isect s p))) = currentY (fst (terrainFollowing isect s p))"
  by (cases "isect (downRay p) (terrainMeshes s) True")
    (simp_all add: terrainFollowing_miss terrainFollowing_hit)

lemma terrain_move_height:
  "vy (cameraRig_position s) = currentY s \<Longrightarrow> vy moveDir = 0 \<Longrightarrow>
   vy (cameraRig_position (terrain_move isect moveDir s)) = currentY (terrain_move isect moveDir s)"
  by (cases "isect (downRay (addScaledVector (cameraRig_position s) moveDir 0.05)) (terrainMeshes s) True")
    (simp_all add: terrain_move_miss terrain_move_hit addScaledVector_def)

lemma terrain_input_height:
  "vy (cameraRig_position s) = currentY s \<Longrightarrow>
   vy (cameraRig_position (terrain_input isect q src s)) = currentY (terrain_input isect q src s)"
  by (cases "sample q src") (simp_all add: terrain_input_def terrain_move_height sample_vy)

lemma fold_terrain_input_height:
  "vy (cameraRig_position s) = currentY s \<Longrightarrow>
   vy (cameraRig_position (fold (terrain_input isect q) sources s))
     = currentY (fold (terrain_input isect q) sources s)"
  by (induction sources arbitrary: s) (simp_all add: terrain_input_height)

lemma terrain_animate_height:
  "vy (cameraRig_position s) = currentY s \<Longrightarrow>
   vy (cameraRig_position (terrain_animate isect frame s)) = currentY (terrain_animate isect frame s)"
  by (simp add: terrain_animate_def terrain_movement_def Let_def terrainFollowing_height
      fold_terrain_input_height split: option.split)

lemma terrain_run_height:
  "vy (cameraRig_position s) = currentY s \<Longrightarrow>
   vy (cameraRig_position (terrain_run isect frames s)) = currentY (terrain_run isect frames s)"
  unfolding terrain_run_def
  by (induction frames arbitrary: s) (simp_all add: terrain_animate_height)

lemma terrain_init_height:
  "vy (cameraRig_position (terrain_run isect frames (terrain_init meshes)))
     = currentY (terrain_run isect frames (terrain_init meshes))"
  by (rule terrain_run_height) (simp add: terrain_init_def)

lemma box_moving_frame:
  assumes "sample q inputSource = Some moveVector"
    and "\<forall>src \<in> set before. sample q src = None" and "\<forall>src \<in> set after. sample q src = None"
    and "vy (cameraRig_position s) = currentY s"
    and "nextPos = \<lparr>vx = vx (cameraRig_position s) + vx moveVector * 0.05,
                    vy = vy (cameraRig_position s) + vy moveVector * 0.05,
                    vz = vz (cameraRig_position s) + vz moveVector * 0.05\<rparr>"
    and "box_query (downRay nextPos) (terrainMeshes s) True = hit2 # rest2"
    and "c1 = lerp (currentY s) (vy (point hit2) + 1.6) 0.2"
    and "frame = \<lparr>isPresenting = True, inputSources = Some (before @ inputSource # after),
                  camera_quaternion = q\<rparr>"
  shows "\<exists>hit rest.
      box_query (downRay \<lparr>vx = vx nextPos, vy = c1, vz = vz nextPos\<rparr>) (terrainMeshes s) True = hit # rest
      \<and> terrain_animate box_query frame s =
          s\<lparr>currentY := lerp c1 (vy (point hit) + 1.6) 0.2,
            cameraRig_position :=
              \<lparr>vx = vx nextPos, vy = lerp c1 (vy (point hit) + 1.6) 0.2, vz = vz nextPos\<rparr>\<rparr>"
proof -
  have "vy moveVector = 0" using assms(1) by (rule sample_vy)
  with assms(4,5) have y: "vy nextPos = currentY s" by simp
  from box_snap_probe_hits [OF assms(6)] y assms(7)
  have "box_query (downRay \<lparr>vx = vx nextPos, vy = c1, vz = vz nextPos\<rparr>) (terrainMeshes s) True \<noteq> []"
    by simp
  then obtain hit rest where
    h: "box_query (downRay \<lparr>vx = vx nextPos, vy = c1, vz = vz nextPos\<rparr>) (terrainMeshes s) True = hit # rest"
    by (cases "box_query (downRay \<lparr>vx = vx nextPos, vy = c1, vz = vz nextPos\<rparr>) (terrainMeshes s) True") auto
  have "currentY (terrain_movement box_query frame s) = c1
    \<and> terrain_animate box_query frame s =
        s\<lparr>currentY := lerp c1 (vy (point hit) + 1.6) 0.2,
          cameraRig_position :=
            \<lparr>vx = vx nextPos, vy = lerp c1 (vy (point hit) + 1.6) 0.2, vz = vz nextPos\<rparr>\<rparr>"
    using assms(1,2,3,5,6,7) h assms(8) by (rule terrain_frame_commit_snap)
  with h show ?thesis by blast
qed

section \<open>collision.js\<close>

lemma collision_input_vy:
  "vy (cameraRig_position (collision_input isect q src s)) = vy (cameraRig_position s)"
proof (cases "sample q src")
  case None
  then show ?thesis by (simp add: collision_input_def)
next
  case (Some moveDir)
  from sample_vy [OF Some] have "vy moveDir = 0" .
  with Some show ?thesis by (simp add: collision_input_def addScaledVector_def)
qed

lemma fold_collision_input_vy:
  "vy (cameraRig_position (fold (collision_input isect q) sources s)) = vy (cameraRig_position s)"
  by (induction sources arbitrary: s) (simp_all add: collision_input_vy)

lemma collision_animate_vy:
  "vy (cameraRig_position (collision_animate isect frame s)) = vy (cameraRig_position s)"
  by (simp add: collision_animate_def fold_collision_input_vy split: option.split)

lemma collision_input_idle: "sample q src = None \<Longrightarrow> collision_input isect q src s = s"
  by (simp add: collision_input_def)

lemma fold_collision_input_idle:
  "\<forall>src \<in> set sources. sample q src = None \<Longrightarrow> fold (collision_input isect q) sources s = s"
  by (induction sources) (simp_all add: collision_input_idle)

text \<open>
  What the code does: it blocks the movement when the ray it casts itself, from 0.5 above the
  next position along the move direction with near 0 and far 1.0, hits an obstacle; and no
  frame of this scene changes the rig's height.
\<close>

lemma collision_blocks_on_raised_probe:
  assumes "sample q inputSource = Some moveDir"
    and "\<forall>src \<in> set before. sample q src = None" and "\<forall>src \<in> set after. sample q src = None"
    and "nextPos = \<lparr>vx = vx (cameraRig_position s) + vx moveDir * 0.05,
                    vy = vy (cameraRig_position s) + vy moveDir * 0.05,
                    vz = vz (cameraRig_position s) + vz moveDir * 0.05\<rparr>"
    and "isect \<lparr>origin = \<lparr>vx = vx nextPos, vy = vy nextPos + 0.5, vz = vz nextPos\<rparr>,
               direction = moveDir, near = 0, far = 1\<rparr> (collidables s) True \<noteq> []"
  shows "cameraRig_position (collision_input isect q inputSource s) = cameraRig_position s
    \<and> cameraRig_position
        (collision_animate isect
           \<lparr>isPresenting = True, inputSources = Some (before @ inputSource # after),
            camera_quaternion = q\<rparr> s)
        = cameraRig_position s
    \<and> vy (cameraRig_position (collision_animate isect frame s)) = vy (cameraRig_position s)"
proof -
  have "nextPos = addScaledVector (cameraRig_position s) moveDir moveSpeed"
    using assms(4) by (simp add: addScaledVector_def moveSpeed_def)
  with assms(5) have "checkCollision isect s (cameraRig_position s) moveDir"
    by (simp add: checkCollision_def forwardRay_def collisionDistance_def Let_def)
  with assms(1) have i: "collision_input isect q inputSource s =
      s\<lparr>console := console s @ [''Movement blocked by collision!'']\<rparr>"
    by (simp add: collision_input_def)
  then have a: "cameraRig_position (collision_input isect q inputSource s) = cameraRig_position s"
    by simp
  have "collision_animate isect
           \<lparr>isPresenting = True, inputSources = Some (before @ inputSource # after),
            camera_quaternion = q\<rparr> s
        = collision_input isect q inputSource s"
    using assms(2,3) by (simp add: collision_animate_def fold_collision_input_idle)
  with a have b: "cameraRig_position
        (collision_animate isect
           \<lparr>isPresenting = True, inputSources = Some (before @ inputSource # after),
            camera_quaternion = q\<rparr> s)
        = cameraRig_position s"
    by simp
  from a b collision_animate_vy [of isect frame s] show ?thesis
    by simp
qed

lemma collision_blocks_on_raised_probe_example:
  "sample level_view (left_stick 0 (-1)) = Some \<lparr>vx = 0, vy = 0, vz = -1\<rparr>
   \<and> sample level_view \<lparr>handedness = ''right'', gamepad = Some [0, 0, 1, 1]\<rparr> = None
   \<and> box_query \<lparr>origin = \<lparr>vx = 0, vy = 2.1, vz = -3.65\<rparr>, direction = \<lparr>vx = 0, vy = 0, vz = -1\<rparr>,
              near = 0, far = 1\<rparr> [obstacle 0 2 (-5)] True
     = [\<lparr>distance = 0.85, point = \<lparr>vx = 0, vy = 2.1, vz = -4.5\<rparr>\<rparr>]
   \<and> cameraRig_position
       (collision_animate box_query
          \<lparr>isPresenting = True,
           inputSources = Some [left_stick 0 (-1), \<lparr>handedness = ''right'', gamepad = Some [0, 0, 1, 1]\<rparr>],
           camera_quaternion = level_view\<rparr>
          \<lparr>cameraRig_position = \<lparr>vx = 0, vy = 1.6, vz = -3.6\<rparr>, collidables = [obstacle 0 2 (-5)],
           console = []\<rparr>)
     = \<lparr>vx = 0, vy = 1.6, vz = -3.6\<rparr>"
proof -
  let ?s = "\<lparr>cameraRig_position = \<lparr>vx = 0, vy = 1.6, vz = -3.6\<rparr>,
             collidables = [obstacle 0 2 (-5)], console = []\<rparr>"
  let ?right = "\<lparr>handedness = ''right'', gamepad = Some [0, 0, 1, 1]\<rparr>"
  have a: "sample level_view (left_stick 0 (-1)) = Some \<lparr>vx = 0, vy = 0, vz = -1\<rparr>"
    by (simp add: input_defs vec_defs)
  have b: "\<forall>src \<in> set []. sample level_view src = None" by simp
  have r: "sample level_view ?right = None" by (simp add: input_defs)
  then have c: "\<forall>src \<in> set [?right]. sample level_view src = None" by simp
  have d: "\<lparr>vx = 0, vy = 1.6, vz = -3.65\<rparr> =
      \<lparr>vx = vx (cameraRig_position ?s) + vx \<lparr>vx = 0, vy = 0, vz = -1\<rparr> * 0.05,
       vy = vy (cameraRig_position ?s) + vy \<lparr>vx = 0, vy = 0, vz = -1\<rparr> * 0.05,
       vz = vz (cameraRig_position ?s) + vz \<lparr>vx = 0, vy = 0, vz = -1\<rparr> * 0.05\<rparr>"
    by simp
  have e: "box_query \<lparr>origin = \<lparr>vx = 0, vy = 2.1, vz = -3.65\<rparr>, direction = \<lparr>vx = 0, vy = 0, vz = -1\<rparr>,
              near = 0, far = 1\<rparr> [obstacle 0 2 (-5)] True
     = [\<lparr>distance = 0.85, point = \<lparr>vx = 0, vy = 2.1, vz = -4.5\<rparr>\<rparr>]"
    by (simp add: box_defs vec_defs)
  then have f: "box_query
      \<lparr>origin = \<lparr>vx = vx \<lparr>vx = 0, vy = 1.6, vz = -3.65\<rparr>, vy = vy \<lparr>vx = 0, vy = 1.6, vz = -3.65\<rparr> + 0.5,
                  vz = vz \<lparr>vx = 0, vy = 1.6, vz = -3.65\<rparr>\<rparr>,
       direction = \<lparr>vx = 0, vy = 0, vz = -1\<rparr>, near = 0, far = 1\<rparr> (collidables ?s) True \<noteq> []"
    by simp
  from collision_blocks_on_raised_probe [where q = level_view and inputSource = "left_stick 0 (-1)"
      and moveDir = "\<lparr>vx = 0, vy = 0, vz = -1\<rparr>" and before = "[]" and after = "[?right]"
      and nextPos = "\<lparr>vx = 0, vy = 1.6, vz = -3.65\<rparr>" and s = ?s and isect = box_query,
      OF a b c d f] a r e
  show ?thesis by simp
qed

text \<open>
  The rig of this scene stays at height 1.6, so the ray of \<open>checkCollision\<close> runs at height
  2.1, over the obstacles of the scene, which reach from 0 to 2: with these obstacles
  \<open>checkCollision\<close> never reports a collision.
\<close>

lemma ray_over_obstacles:
  assumes "vy (direction r) = 0" and "2 < vy (origin r)"
  shows "box_query r createObstacles recursive = []"
  using assms by (simp add: box_defs Let_def)

lemma scene_never_blocks:
  assumes "vy (cameraRig_position s) = 1.6" and "collidables s = createObstacles"
    and "vy moveDir = 0"
  shows "\<not> checkCollision box_query s (cameraRig_position s) moveDir"
proof -
  let ?r = "forwardRay (addScaledVector (cameraRig_position s) moveDir moveSpeed) moveDir"
  have "vy (direction ?r) = 0" "2 < vy (origin ?r)"
    using assms(1,3) by (simp_all add: forwardRay_def addScaledVector_def)
  then have "box_query ?r createObstacles True = []" by (rule ray_over_obstacles)
  with assms(2) show ?thesis by (simp add: checkCollision_def Let_def)
qed

text \<open>
  C8. The claim: in every frame in which the forward probe, a ray from the next position
  along the move direction with range 1.0, hits an obstacle, the movement is blocked and the
  rig's position stays. The code does not do this. With the obstacles of the scene and the
  rig at \<open>(0, 1.6, -3.6)\<close> walking forward, the ray from the next position hits the obstacle
  at \<open>(0, 1, -5)\<close> after 0.85; the ray of the code, raised to height 2.1, hits nothing, and the
  rig moves on to \<open>(0, 1.6, -3.65)\<close>.
\<close>

theorem collision_walks_into_obstacle:
  "sample level_view (left_stick 0 (-1)) = Some \<lparr>vx = 0, vy = 0, vz = -1\<rparr>
   \<and> box_query \<lparr>origin = \<lparr>vx = 0, vy = 1.6, vz = -3.65\<rparr>, direction = \<lparr>vx = 0, vy = 0, vz = -1\<rparr>,
              near = 0, far = 1\<rparr> createObstacles True
     = [\<lparr>distance = 0.85, point = \<lparr>vx = 0, vy = 1.6, vz = -4.5\<rparr>\<rparr>]
   \<and> box_query \<lparr>origin = \<lparr>vx = 0, vy = 2.1, vz = -3.65\<rparr>, direction = \<lparr>vx = 0, vy = 0, vz = -1\<rparr>,
              near = 0, far = 1\<rparr> createObstacles True = []
   \<and> cameraRig_position
       (collision_animate box_query (presenting level_view [left_stick 0 (-1)])
          \<lparr>cameraRig_position = \<lparr>vx = 0, vy = 1.6, vz = -3.6\<rparr>, collidables = createObstacles,
           console = []\<rparr>)
     = \<lparr>vx = 0, vy = 1.6, vz = -3.65\<rparr>
   \<and> cameraRig_position
       (collision_animate box_query (presenting level_view [left_stick 0 (-1)])
          \<lparr>cameraRig_position = \<lparr>vx = 0, vy = 1.6, vz = -3.6\<rparr>, collidables = createObstacles,
           console = []\<rparr>)
     \<noteq> \<lparr>vx = 0, vy = 1.6, vz = -3.6\<rparr>"
  by (simp add: collision_animate_def collision_input_def checkCollision_def forwardRay_def
      collisionDistance_def moveSpeed_def input_defs vec_defs box_defs Let_def)

section \<open>proximity.js\<close>

text \<open>
  C9. With \<open>d\<close> the distance from the rig to the cube, \<open>checkProximity\<close> turns the flag to
  near exactly when \<open>d < 4\<close> and the flag was false, so at \<open>d = 4\<close> a false flag stays false; it
  turns the flag to far exactly when \<open>d \<ge> 4\<close> and the flag was true. The colour of the cube is
  set, and a line is logged, on these two transitions only. The oscillating scale is set
  exactly when the flag is near after the check; otherwise the scale is set to 1.
\<close>

theorem proximity_threshold:
  "(let d = distanceTo (cameraRig_position s) (proximityCube_position s);
        s' = checkProximity now s
    in (isNearCube s' \<and> \<not> isNearCube s \<longleftrightarrow> d < 4 \<and> \<not> isNearCube s)
     \<and> (\<not> isNearCube s' \<and> isNearCube s \<longleftrightarrow> d \<ge> 4 \<and> isNearCube s)
     \<and> (d = 4 \<and> \<not> isNearCube s \<longrightarrow> \<not> isNearCube s')
     \<and> proximityCube_color s' =
         (if d < 4 \<and> \<not> isNearCube s then 16711680
          else if d \<ge> 4 \<and> isNearCube s then 65280
          else proximityCube_color s)
     \<and> proximity_console s' =
         (if d < 4 \<and> \<not> isNearCube s then proximity_console s @ [Near_cube d]
          else if d \<ge> 4 \<and> isNearCube s then proximity_console s @ [Away_from_cube d]
          else proximity_console s)
     \<and> proximityCube_scale s' =
         (if isNearCube s' then setScalar (1 + sin (now * 0.005) * 0.2) else setScalar 1))"
  by (simp add: checkProximity_def proximityDistance_def Let_def)

theorem proximity_threshold_witness:
  "distanceTo \<lparr>vx = 0, vy = 0.5, vz = -1\<rparr> \<lparr>vx = 0, vy = 0.5, vz = -5\<rparr> = 4
   \<and> isNearCube (checkProximity 0
        \<lparr>cameraRig_position = \<lparr>vx = 0, vy = 0.5, vz = -1\<rparr>, isNearCube = False,
         proximityCube_position = \<lparr>vx = 0, vy = 0.5, vz = -5\<rparr>, proximityCube_color = 65280,
         proximityCube_scale = setScalar 1, proximity_console = []\<rparr>) = False
   \<and> proximityCube_color (checkProximity 0
        \<lparr>cameraRig_position = \<lparr>vx = 0, vy = 0.5, vz = -1\<rparr>, isNearCube = False,
         proximityCube_position = \<lparr>vx = 0, vy = 0.5, vz = -5\<rparr>, proximityCube_color = 65280,
         proximityCube_scale = setScalar 1, proximity_console = []\<rparr>) = 65280
   \<and> isNearCube (checkProximity 0
        \<lparr>cameraRig_position = \<lparr>vx = 0, vy = 0.5, vz = -1\<rparr>, isNearCube = True,
         proximityCube_position = \<lparr>vx = 0, vy = 0.5, vz = -5\<rparr>, proximityCube_color = 16711680,
         proximityCube_scale = setScalar 1, proximity_console = []\<rparr>) = False
   \<and> proximityCube_color (checkProximity 0
        \<lparr>cameraRig_position = \<lparr>vx = 0, vy = 0.5, vz = -1\<rparr>, isNearCube = True,
         proximityCube_position = \<lparr>vx = 0, vy = 0.5, vz = -5\<rparr>, proximityCube_color = 16711680,
         proximityCube_scale = setScalar 1, proximity_console = []\<rparr>) = 65280"
proof -
  have d: "distanceTo \<lparr>vx = 0, vy = 0.5, vz = -1\<rparr> \<lparr>vx = 0, vy = 0.5, vz = -5\<rparr> = 4"
  proof -
    have "sqrt 16 = sqrt (4\<^sup>2)" by simp
    also have "\<dots> = 4" by simp
    finally show ?thesis by (simp add: distanceTo_def Let_def)
  qed
  from proximity_threshold [of "\<lparr>cameraRig_position = \<lparr>vx = 0, vy = 0.5, vz = -1\<rparr>, isNearCube = False,
         proximityCube_position = \<lparr>vx = 0, vy = 0.5, vz = -5\<rparr>, proximityCube_color = 65280,
         proximityCube_scale = setScalar 1, proximity_console = []\<rparr>" 0]
    proximity_threshold [of "\<lparr>cameraRig_position = \<lparr>vx = 0, vy = 0.5, vz = -1\<rparr>, isNearCube = True,
         proximityCube_position = \<lparr>vx = 0, vy = 0.5, vz = -5\<rparr>, proximityCube_color = 16711680,
         proximityCube_scale = setScalar 1, proximity_console = []\<rparr>" 0] d
  show ?thesis by (simp add: Let_def)
qed

end
